theory Spec2Isabelle
  imports Main "HOL-Library.Word" "HOL-Library.Char_ord" "HOL-Library.List_Lexorder"
    "HOL-Library.Multiset"
begin

section \<open>Values of the plugin framework\<close>

text \<open>
  The resource model is built from the value types of the Terraform plugin framework
  (\<^verbatim>\<open>types.String\<close>, \<^verbatim>\<open>types.Int32\<close>, \<^verbatim>\<open>types.Bool\<close>, \<^verbatim>\<open>types.List\<close>).
  Each of them is null, unknown, or holds a known value; the zero value of the Go struct
  is the null state. The schema declares every list with element type string, so the
  elements of a list are framework strings.
\<close>

datatype 'a tfvalue = Null | Unknown | Known 'a

type_synonym tfString = "string tfvalue"
type_synonym tfInt32 = "32 word tfvalue"
type_synonym tfBool = "bool tfvalue"
type_synonym tfList = "tfString list tfvalue"

text \<open>
  The accessors of the framework. \<^verbatim>\<open>ValueString\<close> gives the empty string for a null
  or unknown value; the pointer accessors give nil for null, and a pointer to the zero
  value for unknown.
\<close>

definition ValueString :: "tfString \<Rightarrow> string" where
  "ValueString s = (case s of Known v \<Rightarrow> v | _ \<Rightarrow> [])"

definition ValueStringPointer :: "tfString \<Rightarrow> string option" where
  "ValueStringPointer s = (case s of Null \<Rightarrow> None | Unknown \<Rightarrow> Some [] | Known v \<Rightarrow> Some v)"

definition ValueInt32Pointer :: "tfInt32 \<Rightarrow> 32 word option" where
  "ValueInt32Pointer s = (case s of Null \<Rightarrow> None | Unknown \<Rightarrow> Some 0 | Known v \<Rightarrow> Some v)"

definition ValueBoolPointer :: "tfBool \<Rightarrow> bool option" where
  "ValueBoolPointer s = (case s of Null \<Rightarrow> None | Unknown \<Rightarrow> Some False | Known v \<Rightarrow> Some v)"

definition StringValue :: "string \<Rightarrow> tfString" where
  "StringValue s = Known s"

definition StringPointerValue :: "string option \<Rightarrow> tfString" where
  "StringPointerValue p = (case p of None \<Rightarrow> Null | Some v \<Rightarrow> Known v)"

definition Int32PointerValue :: "32 word option \<Rightarrow> tfInt32" where
  "Int32PointerValue p = (case p of None \<Rightarrow> Null | Some v \<Rightarrow> Known v)"

definition BoolPointerValue :: "bool option \<Rightarrow> tfBool" where
  "BoolPointerValue p = (case p of None \<Rightarrow> Null | Some v \<Rightarrow> Known v)"

definition ListNull :: tfList where
  "ListNull = Null"

subsection \<open>Diagnostics\<close>

datatype severity = SeverityError | SeverityWarning

datatype diagnostic = Diagnostic severity string string

type_synonym diagnostics = "diagnostic list"

text \<open>\<^verbatim>\<open>Diagnostics.Append\<close> skips a diagnostic that the collection already contains.\<close>

definition Append1 :: "diagnostics \<Rightarrow> diagnostic \<Rightarrow> diagnostics" where
  "Append1 diags d = (if d \<in> set diags then diags else diags @ [d])"

definition Append :: "diagnostics \<Rightarrow> diagnostic list \<Rightarrow> diagnostics" where
  "Append diags ds = foldl Append1 diags ds"

definition AddError :: "string \<Rightarrow> string \<Rightarrow> diagnostics \<Rightarrow> diagnostics" where
  "AddError summary detail diags = Append1 diags (Diagnostic SeverityError summary detail)"

definition AddWarning :: "string \<Rightarrow> string \<Rightarrow> diagnostics \<Rightarrow> diagnostics" where
  "AddWarning summary detail diags = Append1 diags (Diagnostic SeverityWarning summary detail)"

fun is_error :: "diagnostic \<Rightarrow> bool" where
  "is_error (Diagnostic sev _ _) = (sev = SeverityError)"

definition HasError :: "diagnostics \<Rightarrow> bool" where
  "HasError diags = list_ex is_error diags"

text \<open>
  \<^verbatim>\<open>list.ElementsAs(ctx, &strs, false)\<close> with a target of framework strings hands the
  elements over as they are and reports nothing; \<^verbatim>\<open>types.ListValueFrom\<close> on a slice
  of Go strings builds a known list of known strings and reports nothing.
\<close>

definition ElementsAs :: "tfString list \<Rightarrow> tfString list \<times> diagnostic list" where
  "ElementsAs es = (es, [])"

definition ListValueFrom :: "string list \<Rightarrow> tfList \<times> diagnostic list" where
  "ListValueFrom parts = (Known (map StringValue parts), [])"

section \<open>Strings of the Go standard library\<close>

text \<open>\<^verbatim>\<open>strings.Join(elems, sep)\<close>.\<close>

fun Join :: "string list \<Rightarrow> string \<Rightarrow> string" where
  "Join [] sep = []"
| "Join [x] sep = x"
| "Join (x # y # ys) sep = x @ sep @ Join (y # ys) sep"

text \<open>
  \<^verbatim>\<open>strings.Split(s, sep)\<close> for a separator of one byte, the only use the adapter makes
  of it: the result has one more part than \<open>s\<close> has separators, so it is never empty.
\<close>

fun Split :: "string \<Rightarrow> char \<Rightarrow> string list" where
  "Split [] c = [[]]"
| "Split (x # xs) c =
     (if x = c then [] # Split xs c
      else (x # hd (Split xs c)) # tl (Split xs c))"

text \<open>\<^verbatim>\<open>strings.Contains(s, substr)\<close>: \<open>substr\<close> starts at some position of \<open>s\<close>.\<close>

fun HasPrefix :: "string \<Rightarrow> string \<Rightarrow> bool" where
  "HasPrefix s [] = True"
| "HasPrefix [] (p # ps) = False"
| "HasPrefix (x # xs) (p # ps) = (x = p \<and> HasPrefix xs ps)"

fun Contains :: "string \<Rightarrow> string \<Rightarrow> bool" where
  "Contains [] substr = (substr = [])"
| "Contains (x # xs) substr = (HasPrefix (x # xs) substr \<or> Contains xs substr)"

section \<open>The wire record\<close>

text \<open>
  \<^verbatim>\<open>zones.SdnZoneBody\<close>: the zone name and twenty-five optional fields, each a Go
  pointer (nil when absent). The wire name of a field is its \<^verbatim>\<open>url\<close> tag.
\<close>

record SdnZoneBody =
  Name :: string
  Type :: "string option"
  Delete :: "string option"
  AdvertiseSubnets :: "bool option"
  Bridge :: "string option"
  BridgeDisableMacLearning :: "bool option"
  Controller :: "string option"
  Dhcp :: "string option"
  DisableArpNdSuppression :: "bool option"
  Dns :: "string option"
  Dnszone :: "string option"
  DpID :: "32 word option"
  Exitnodes :: "string option"
  ExitnodesLocalRouting :: "bool option"
  ExitnodesPrimary :: "string option"
  Ipam :: "string option"
  Mac :: "string option"
  Mtu :: "32 word option"
  Nodes :: "string option"
  Peers :: "string option"
  Reversedns :: "string option"
  RtImport :: "string option"
  Tag :: "32 word option"
  VlanProtocol :: "string option"
  VrfVxlan :: "32 word option"
  VxlanPort :: "32 word option"

text \<open>The zero value of the struct: what a composite literal leaves in the fields it does not name.\<close>

definition zeroSdnZoneBody :: SdnZoneBody where
  "zeroSdnZoneBody =
     \<lparr>Name = [], Type = None, Delete = None, AdvertiseSubnets = None, Bridge = None,
      BridgeDisableMacLearning = None, Controller = None, Dhcp = None,
      DisableArpNdSuppression = None, Dns = None, Dnszone = None, DpID = None,
      Exitnodes = None, ExitnodesLocalRouting = None, ExitnodesPrimary = None, Ipam = None,
      Mac = None, Mtu = None, Nodes = None, Peers = None, Reversedns = None, RtImport = None,
      Tag = None, VlanProtocol = None, VrfVxlan = None, VxlanPort = None\<rparr>"

section \<open>The resource model\<close>

text \<open>
  The five variant blocks are Go pointers to their structs (nil when the block is absent).
  A field whose name the wire record or another block has too carries the name of its
  struct as a suffix.
\<close>

record sdnZoneSimpleModel =
  AutomaticDHCP :: tfString

record sdnZoneVlanModel =
  Bridge_vlan :: tfString

record sdnZoneVxlanModel =
  Peers_vxlan :: tfList
  Port :: tfInt32

record sdnZoneQinQModel =
  Bridge_qinq :: tfString
  Tag_qinq :: tfInt32
  VlanProtocol_qinq :: tfString

record sdnZoneEvpnModel =
  Controller_evpn :: tfString
  VrfVxlan_evpn :: tfInt32
  Mac_evpn :: tfString
  Exitnodes_evpn :: tfList
  ExitnodesPrimary_evpn :: tfString
  ExitnodesLocalRouting_evpn :: tfBool
  AdvertiseSubnets_evpn :: tfBool
  DisableArpNdSuppression_evpn :: tfBool
  RtImport_evpn :: tfString

record sdnZoneResourceModel =
  Name_model :: tfString
  MTU :: tfInt32
  Nodes_model :: tfList
  IPAM :: tfString
  DNS :: tfString
  ReverseDNS :: tfString
  DNSZone :: tfString
  Simple :: "sdnZoneSimpleModel option"
  VLAN :: "sdnZoneVlanModel option"
  VXLAN :: "sdnZoneVxlanModel option"
  QinQ :: "sdnZoneQinQModel option"
  EVPN :: "sdnZoneEvpnModel option"

text \<open>\<^verbatim>\<open>RemoveAllAttributes\<close> resets all attributes except the name.\<close>

definition RemoveAllAttributes :: "sdnZoneResourceModel \<Rightarrow> sdnZoneResourceModel" where
  "RemoveAllAttributes m =
     \<lparr>Name_model = Name_model m, MTU = Null, Nodes_model = ListNull, IPAM = Null, DNS = Null,
      ReverseDNS = Null, DNSZone = Null, Simple = None, VLAN = None, VXLAN = None,
      QinQ = None, EVPN = None\<rparr>"

section \<open>Conversion between the model and the wire record\<close>

text \<open>\<^verbatim>\<open>convertListToString\<close> converts a Terraform list to a comma-separated string.\<close>

definition convertListToString :: "tfList \<Rightarrow> diagnostics \<Rightarrow> string option \<times> diagnostics" where
  "convertListToString list diags =
     (case list of
        Null \<Rightarrow> (None, diags)
      | Unknown \<Rightarrow> (None, diags)
      | Known elements \<Rightarrow>
          (let (strs, nodes_diags) = ElementsAs elements;
               diags' = Append diags nodes_diags;
               stringVals = map ValueString strs;
               joined = Join stringVals '',''
           in (Some joined, diags')))"

text \<open>\<^verbatim>\<open>convertStringToList\<close> converts a comma-separated string to a Terraform list.\<close>

definition convertStringToList :: "string option \<Rightarrow> diagnostics \<Rightarrow> tfList \<times> diagnostics" where
  "convertStringToList val diags =
     (case val of
        None \<Rightarrow> (ListNull, diags)
      | Some v \<Rightarrow>
          if v = [] then (ListNull, diags)
          else (let parts = Split v (CHR '','');
                    (list, listDiags) = ListValueFrom parts
                in (list, Append diags listDiags)))"

text \<open>
  \<^verbatim>\<open>exportToSdnZoneBody\<close> converts the resource model to a SDN zone body for API
  requests. The blocks are tested in the order of the \<^verbatim>\<open>if\<close> chain; when none is
  set, \<^verbatim>\<open>zoneType\<close> keeps its zero value, the empty string.
\<close>

definition exportToSdnZoneBody :: "sdnZoneResourceModel \<Rightarrow> diagnostics \<Rightarrow> SdnZoneBody \<times> diagnostics" where
  "exportToSdnZoneBody m diags0 =
     (let (nodes, diags1) = convertListToString (Nodes_model m) diags0;
          result = zeroSdnZoneBody
            \<lparr>Name := ValueString (Name_model m),
             Mtu := ValueInt32Pointer (MTU m),
             Nodes := nodes,
             Ipam := ValueStringPointer (IPAM m),
             Dns := ValueStringPointer (DNS m),
             Reversedns := ValueStringPointer (ReverseDNS m),
             Dnszone := ValueStringPointer (DNSZone m)\<rparr>;
          (zoneType, result', diags') =
            (case Simple m of
               Some simple \<Rightarrow>
                 (''simple'', result\<lparr>Dhcp := ValueStringPointer (AutomaticDHCP simple)\<rparr>, diags1)
             | None \<Rightarrow>
            (case VLAN m of
               Some vlan \<Rightarrow>
                 (''vlan'', result\<lparr>Bridge := ValueStringPointer (Bridge_vlan vlan)\<rparr>, diags1)
             | None \<Rightarrow>
            (case VXLAN m of
               Some vxlan \<Rightarrow>
                 (let (peers, diags2) = convertListToString (Peers_vxlan vxlan) diags1
                  in (''vxlan'',
                      result\<lparr>Peers := peers, VxlanPort := ValueInt32Pointer (Port vxlan)\<rparr>,
                      diags2))
             | None \<Rightarrow>
            (case QinQ m of
               Some qinq \<Rightarrow>
                 (''qinq'',
                  result\<lparr>Bridge := ValueStringPointer (Bridge_qinq qinq),
                         Tag := ValueInt32Pointer (Tag_qinq qinq),
                         VlanProtocol := ValueStringPointer (VlanProtocol_qinq qinq)\<rparr>,
                  diags1)
             | None \<Rightarrow>
            (case EVPN m of
               Some evpn \<Rightarrow>
                 (let (exitnodes, diags2) = convertListToString (Exitnodes_evpn evpn) diags1
                  in (''evpn'',
                      result\<lparr>Controller := ValueStringPointer (Controller_evpn evpn),
                             VrfVxlan := ValueInt32Pointer (VrfVxlan_evpn evpn),
                             Mac := ValueStringPointer (Mac_evpn evpn),
                             Exitnodes := exitnodes,
                             ExitnodesPrimary := ValueStringPointer (ExitnodesPrimary_evpn evpn),
                             ExitnodesLocalRouting :=
                               ValueBoolPointer (ExitnodesLocalRouting_evpn evpn),
                             AdvertiseSubnets := ValueBoolPointer (AdvertiseSubnets_evpn evpn),
                             DisableArpNdSuppression :=
                               ValueBoolPointer (DisableArpNdSuppression_evpn evpn),
                             RtImport := ValueStringPointer (RtImport_evpn evpn)\<rparr>,
                      diags2))
             | None \<Rightarrow> ([], result, diags1))))))
      in (result'\<lparr>Type := Some zoneType\<rparr>, diags'))"

text \<open>
  \<^verbatim>\<open>importFromSdnZoneBody\<close> populates the resource model from a SDN zone body. The
  receiver \<open>m\<close> is updated in place: the base attributes are overwritten, and the block
  of the record's type is replaced; the other blocks of the receiver stay as they are.
  \<^verbatim>\<open>switch *body.Type\<close> dereferences the pointer, which panics when it is nil.
\<close>

datatype panic = NilPointerDereference

definition importFromSdnZoneBody ::
  "sdnZoneResourceModel \<Rightarrow> SdnZoneBody \<Rightarrow> diagnostics \<Rightarrow> panic + (sdnZoneResourceModel \<times> diagnostics)" where
  "importFromSdnZoneBody m body diags0 =
     (let (nodes, diags1) = convertStringToList (Nodes body) diags0;
          m1 = m\<lparr>Name_model := StringValue (Name body),
                 MTU := Int32PointerValue (Mtu body),
                 Nodes_model := nodes,
                 IPAM := StringPointerValue (Ipam body),
                 DNS := StringPointerValue (Dns body),
                 ReverseDNS := StringPointerValue (Reversedns body),
                 DNSZone := StringPointerValue (Dnszone body)\<rparr>
      in case Type body of
           None \<Rightarrow> Inl NilPointerDereference
         | Some t \<Rightarrow>
             if t = ''simple'' then
               Inr (m1\<lparr>Simple := Some \<lparr>AutomaticDHCP = StringPointerValue (Dhcp body)\<rparr>\<rparr>, diags1)
             else if t = ''vlan'' then
               Inr (m1\<lparr>VLAN := Some \<lparr>Bridge_vlan = StringPointerValue (Bridge body)\<rparr>\<rparr>, diags1)
             else if t = ''vxlan'' then
               (let (peers, diags2) = convertStringToList (Peers body) diags1
                in Inr (m1\<lparr>VXLAN := Some \<lparr>Peers_vxlan = peers,
                                            Port = Int32PointerValue (VxlanPort body)\<rparr>\<rparr>, diags2))
             else if t = ''qinq'' then
               Inr (m1\<lparr>QinQ := Some \<lparr>Bridge_qinq = StringPointerValue (Bridge body),
                                      Tag_qinq = Int32PointerValue (Tag body),
                                      VlanProtocol_qinq = StringPointerValue (VlanProtocol body)\<rparr>\<rparr>,
                    diags1)
             else if t = ''evpn'' then
               (let (exitnodes, diags2) = convertStringToList (Exitnodes body) diags1
                in Inr (m1\<lparr>EVPN := Some
                         \<lparr>Controller_evpn = StringPointerValue (Controller body),
                          VrfVxlan_evpn = Int32PointerValue (VrfVxlan body),
                          Mac_evpn = StringPointerValue (Mac body),
                          Exitnodes_evpn = exitnodes,
                          ExitnodesPrimary_evpn = StringPointerValue (ExitnodesPrimary body),
                          ExitnodesLocalRouting_evpn = BoolPointerValue (ExitnodesLocalRouting body),
                          AdvertiseSubnets_evpn = BoolPointerValue (AdvertiseSubnets body),
                          DisableArpNdSuppression_evpn =
                            BoolPointerValue (DisableArpNdSuppression body),
                          RtImport_evpn = StringPointerValue (RtImport body)\<rparr>\<rparr>, diags2))
             else
               Inr (m1, AddError ''Invalid SDN Zone Type''
                          (''SDN Zone type is not recognized: '' @ t) diags1))"

text \<open>
  \<^verbatim>\<open>exportToUpdateBody\<close>. Each statement
  \<^verbatim>\<open>if body.F == nil { deleteTab = append(deleteTab, name) }\<close> is one application of
  \<open>appendIfNil\<close>. The \<^verbatim>\<open>switch *body.Type\<close> has no default case: a type that is none
  of the five leaves \<^verbatim>\<open>deleteTab\<close> as it is.
\<close>

definition appendIfNil :: "'a option \<Rightarrow> string \<Rightarrow> string list \<Rightarrow> string list" where
  "appendIfNil field name deleteTab = (if field = None then deleteTab @ [name] else deleteTab)"

definition exportToUpdateBody ::
  "sdnZoneResourceModel \<Rightarrow> diagnostics \<Rightarrow> panic + (SdnZoneBody \<times> diagnostics)" where
  "exportToUpdateBody s diags0 =
     (let (body, diags) = exportToSdnZoneBody s diags0;
          deleteTab = [];
          deleteTab = appendIfNil (Mtu body) ''mtu'' deleteTab;
          deleteTab = appendIfNil (Nodes body) ''nodes'' deleteTab;
          deleteTab = appendIfNil (Ipam body) ''ipam'' deleteTab;
          deleteTab = appendIfNil (Dns body) ''dns'' deleteTab;
          deleteTab = appendIfNil (Reversedns body) ''reversedns'' deleteTab;
          deleteTab = appendIfNil (Dnszone body) ''dnszone'' deleteTab
      in case Type body of
           None \<Rightarrow> Inl NilPointerDereference
         | Some t \<Rightarrow>
             (let deleteTab =
                    (if t = ''simple'' then
                       appendIfNil (Dhcp body) ''dhcp'' deleteTab
                     else if t = ''vlan'' then
                       appendIfNil (Bridge body) ''bridge'' deleteTab
                     else if t = ''vxlan'' then
                       (let deleteTab = appendIfNil (Peers body) ''peers'' deleteTab
                        in appendIfNil (VxlanPort body) ''vxlan-port'' deleteTab)
                     else if t = ''qinq'' then
                       (let deleteTab = appendIfNil (Bridge body) ''bridge'' deleteTab;
                            deleteTab = appendIfNil (Tag body) ''tag'' deleteTab
                        in appendIfNil (VlanProtocol body) ''vlan-protocol'' deleteTab)
                     else if t = ''evpn'' then
                       (let deleteTab = appendIfNil (Controller body) ''controller'' deleteTab;
                            deleteTab = appendIfNil (VrfVxlan body) ''vrf-vxlan'' deleteTab;
                            deleteTab = appendIfNil (Mac body) ''mac'' deleteTab;
                            deleteTab = appendIfNil (Exitnodes body) ''exitnodes'' deleteTab;
                            deleteTab =
                              appendIfNil (ExitnodesPrimary body) ''exitnodes-primary'' deleteTab;
                            deleteTab =
                              appendIfNil (ExitnodesLocalRouting body) ''exitnodes-local-routing''
                                deleteTab;
                            deleteTab =
                              appendIfNil (AdvertiseSubnets body) ''advertise-subnets'' deleteTab;
                            deleteTab =
                              appendIfNil (DisableArpNdSuppression body)
                                ''disable-arp-nd-suppression'' deleteTab
                        in appendIfNil (RtImport body) ''rt-import'' deleteTab)
                     else deleteTab);
                  body = (if length deleteTab > 0
                          then body\<lparr>Delete := Some (Join deleteTab '','')\<rparr> else body)
              in Inr (body\<lparr>Type := None\<rparr>, diags)))"

section \<open>The transport client\<close>

text \<open>
  A Go \<^verbatim>\<open>error\<close> of the client is the sentinel \<^verbatim>\<open>api.ErrNoDataObjectInResponse\<close>, an
  error that \<^verbatim>\<open>DoRequest\<close> returned (known by its message), or
  \<^verbatim>\<open>fmt.Errorf(prefix + "%w", err)\<close>, which wraps an error behind a prefix. The text of
  the sentinel is declared in the \<^verbatim>\<open>api\<close> package, so \<open>Error\<close> takes it as its first
  argument.
\<close>

datatype go_error =
  ErrNoDataObjectInResponse
| RequestError string
| Wrapped string go_error

fun Error :: "string \<Rightarrow> go_error \<Rightarrow> string" where
  "Error noData ErrNoDataObjectInResponse = noData"
| "Error noData (RequestError msg) = msg"
| "Error noData (Wrapped pre err) = pre @ Error noData err"

record SdnZoneListResponseBody =
  Data_list :: "SdnZoneBody option list option"

record SdnZoneGetResponseBody =
  Data_get :: "SdnZoneBody option"

text \<open>
  The less function that \<^verbatim>\<open>List\<close> hands to \<^verbatim>\<open>sort.Slice\<close>,
  \<^verbatim>\<open>resBody.Data[i].Name < resBody.Data[j].Name\<close>, on the two entries it is called for.
  The entries are pointers: a JSON null in the array decodes to nil, and the comparison
  dereferences both.
\<close>

fun lessName :: "SdnZoneBody option \<Rightarrow> SdnZoneBody option \<Rightarrow> panic + bool" where
  "lessName (Some a) (Some b) = Inr (Name a < Name b)"
| "lessName _ _ = Inl NilPointerDereference"

text \<open>
  \<^verbatim>\<open>sort.Slice(data, less)\<close> of the Go standard library. On a slice of at most
  \<^verbatim>\<open>maxInsertion\<close> elements it runs an insertion sort: each element in turn sinks to
  the left past the elements that \<open>lessFn\<close> puts it before (\<open>front\<close> is the sorted
  prefix, nearest element first); a panic of \<open>lessFn\<close> ends the sort.
\<close>

definition maxInsertion :: nat where
  "maxInsertion = 12"

fun sink :: "('a \<Rightarrow> 'a \<Rightarrow> panic + bool) \<Rightarrow> 'a \<Rightarrow> 'a list \<Rightarrow> panic + 'a list" where
  "sink lessFn x [] = Inr [x]"
| "sink lessFn x (y # ys) =
     (case lessFn x y of
        Inl p \<Rightarrow> Inl p
      | Inr True \<Rightarrow> (case sink lessFn x ys of Inl p \<Rightarrow> Inl p | Inr zs \<Rightarrow> Inr (y # zs))
      | Inr False \<Rightarrow> Inr (x # y # ys))"

fun insertionSort ::
  "('a \<Rightarrow> 'a \<Rightarrow> panic + bool) \<Rightarrow> 'a list \<Rightarrow> 'a list \<Rightarrow> panic + 'a list" where
  "insertionSort lessFn front [] = Inr (rev front)"
| "insertionSort lessFn front (x # xs) =
     (case sink lessFn x front of
        Inl p \<Rightarrow> Inl p
      | Inr front' \<Rightarrow> insertionSort lessFn front' xs)"

text \<open>
  On a longer slice the library runs a pattern-defeating quicksort, which is not stable.
  Of that algorithm the model keeps what the library documents: it returns the elements
  in an order in which none is \<open>lessFn\<close> one before it, or it ends in a panic that a
  comparison of two of the elements raised. \<open>sort_Slice lessFn data out\<close> says that
  \<open>out\<close> is such an outcome: the one outcome of the insertion sort on a short slice, any
  outcome of that kind on a long one.
\<close>

definition sort_Slice :: "('a \<Rightarrow> 'a \<Rightarrow> panic + bool) \<Rightarrow> 'a list \<Rightarrow> panic + 'a list \<Rightarrow> bool" where
  "sort_Slice lessFn data out =
     (if length data \<le> maxInsertion then out = insertionSort lessFn [] data
      else
        (case out of
           Inl p \<Rightarrow> list_ex (\<lambda>x. list_ex (\<lambda>y. lessFn x y = Inl p) data) data
         | Inr zs \<Rightarrow> mset zs = mset data \<and> sorted_wrt (\<lambda>a b. lessFn b a = Inr False) zs))"

text \<open>
  The client's methods, each given the outcome of its one \<^verbatim>\<open>DoRequest\<close> call: the
  error, or the decoded response body (\<^verbatim>\<open>DoRequest\<close> belongs to the \<^verbatim>\<open>api\<close> package).
  \<^verbatim>\<open>List\<close> returns a list of SDN zones in the Proxmox cluster; \<^verbatim>\<open>Get\<close> retrieves a
  single SDN zone; \<^verbatim>\<open>Delete\<close> removes one. The path of the request (built with
  \<^verbatim>\<open>ExpandPath\<close> and \<^verbatim>\<open>url.PathEscape\<close>) has no part in what the methods return.

  \<open>List_client doRequest out\<close> says that \<open>out\<close> is an outcome of \<^verbatim>\<open>List\<close>: a panic,
  an error, or the sorted entries.
\<close>

definition List_client ::
  "go_error + SdnZoneListResponseBody \<Rightarrow> panic + (go_error + SdnZoneBody option list) \<Rightarrow> bool"
  where
  "List_client doRequest out =
     (case doRequest of
        Inl err \<Rightarrow> out = Inr (Inl (Wrapped ''error listing SDN zones: '' err))
      | Inr resBody \<Rightarrow>
          (case Data_list resBody of
             None \<Rightarrow> out = Inr (Inl ErrNoDataObjectInResponse)
           | Some data \<Rightarrow>
               (case out of
                  Inl p \<Rightarrow> sort_Slice lessName data (Inl p)
                | Inr (Inl err) \<Rightarrow> False
                | Inr (Inr zs) \<Rightarrow> sort_Slice lessName data (Inr zs))))"

definition Get_client :: "go_error + SdnZoneGetResponseBody \<Rightarrow> go_error + SdnZoneBody" where
  "Get_client doRequest =
     (case doRequest of
        Inl err \<Rightarrow> Inl (Wrapped ''error reading SDN zone: '' err)
      | Inr resBody \<Rightarrow>
          (case Data_get resBody of
             None \<Rightarrow> Inl ErrNoDataObjectInResponse
           | Some data \<Rightarrow> Inr data))"

definition Delete_client :: "go_error option \<Rightarrow> go_error option" where
  "Delete_client doRequest =
     (case doRequest of
        Some err \<Rightarrow> Some (Wrapped ''error deleting SDN zone: '' err)
      | None \<Rightarrow> None)"

section \<open>The resource\<close>

text \<open>
  \<^verbatim>\<open>read\<close> fetches the current state of the resource from the Proxmox API and updates
  the model. \<open>doRequest\<close> is the outcome of the request that \<^verbatim>\<open>Get\<close> issues.
\<close>

definition read ::
  "string \<Rightarrow> go_error + SdnZoneGetResponseBody \<Rightarrow> sdnZoneResourceModel \<Rightarrow> diagnostics
     \<Rightarrow> panic + (sdnZoneResourceModel \<times> diagnostics)" where
  "read noData doRequest model diags =
     (case Get_client doRequest of
        Inl err \<Rightarrow>
          if Contains (Error noData err) ''does not exist'' then
            Inr (RemoveAllAttributes model,
                 AddWarning ''SDN Zone Not Found''
                   (''SDN zone '' @ ValueString (Name_model model) @
                    '' does not exist, setting to empty state'') diags)
          else
            Inr (model,
                 AddError ''Error listing SDN Zones''
                   (''Failed to list SDN zones: '' @ Error noData err) diags)
      | Inr zone \<Rightarrow> importFromSdnZoneBody model zone diags)"

text \<open>
  \<^verbatim>\<open>Delete\<close> deletes the resource; the framework removes the Terraform state when the
  response carries no error. \<open>stateGet\<close> is what \<^verbatim>\<open>req.State.Get\<close> yields, \<open>doRequest\<close>
  the outcome of the request that the client's \<^verbatim>\<open>Delete\<close> issues, \<open>respDiags\<close> the
  diagnostics of the response, which the function returns updated.
\<close>

definition Delete_resource ::
  "string \<Rightarrow> sdnZoneResourceModel \<times> diagnostic list \<Rightarrow> go_error option \<Rightarrow> diagnostics
     \<Rightarrow> diagnostics" where
  "Delete_resource noData stateGet doRequest respDiags0 =
     (let (state, diags) = stateGet;
          respDiags = Append respDiags0 diags
      in if HasError respDiags then respDiags
         else
           (case Delete_client doRequest of
              Some err \<Rightarrow>
                if Contains (Error noData err) ''does not exist'' then
                  AddWarning ''SDN Zone Not Found''
                    (''SDN zone '' @ ValueString (Name_model state) @
                     '' does not exist, skipping deletion'') respDiags
                else
                  AddError ''Error Deleting SDN Zone''
                    (''Failed to delete SDN zone '' @ ValueString (Name_model state) @ '': '' @
                     Error noData err) respDiags
            | None \<Rightarrow> respDiags))"

subsection \<open>The schema\<close>

text \<open>
  An attribute of the schema, with its \<^verbatim>\<open>Required\<close>, \<^verbatim>\<open>Optional\<close> and \<^verbatim>\<open>Computed\<close>
  flags; a nested attribute holds its own attributes under their keys. Descriptions,
  defaults, validators and plan modifiers are left out.
\<close>

datatype attribute =
  StringAttribute bool bool bool
| Int32Attribute bool bool bool
| BoolAttribute bool bool bool
| ListAttribute bool bool bool
| SingleNestedAttribute bool bool bool "(string \<times> attribute) list"

definition Schema_Attributes :: "(string \<times> attribute) list" where
  "Schema_Attributes =
     [(''name'', StringAttribute True False False),
      (''mtu'', Int32Attribute False True False),
      (''nodes'', ListAttribute False True False),
      (''ipam'', StringAttribute False True True),
      (''dns'', StringAttribute False True False),
      (''reversedns'', StringAttribute False True False),
      (''dnszone'', StringAttribute False True False),
      (''simple'', SingleNestedAttribute False True False
         [(''dhcp'', StringAttribute False True False)]),
      (''vlan'', SingleNestedAttribute False True False
         [(''bridge'', StringAttribute True False False)]),
      (''vxlan'', SingleNestedAttribute False True False
         [(''peers'', ListAttribute True False False),
          (''port'', Int32Attribute False True True)]),
      (''qinq'', SingleNestedAttribute False True False
         [(''bridge'', StringAttribute True False False),
          (''tag'', Int32Attribute True False False),
          (''vlan_protocol'', StringAttribute False True True)]),
      (''evpn'', SingleNestedAttribute False True False
         [(''controller'', StringAttribute True False False),
          (''vfr_vxlan'', Int32Attribute True False False),
          (''mac'', StringAttribute False True True),
          (''exitnodes'', ListAttribute False True True),
          (''exitnodes_primary'', StringAttribute False True True),
          (''exitnodes_local_routing'', BoolAttribute False True True),
          (''advertise_subnets'', BoolAttribute False True True),
          (''disable_arp_nd_suppression'', BoolAttribute False True True),
          (''rt_import'', StringAttribute False True True)])]"

text \<open>The keys that a nested attribute of the schema declares, in the order of the source.\<close>

definition nested_keys :: "string \<Rightarrow> string list" where
  "nested_keys block =
     (case map_of Schema_Attributes block of
        Some (SingleNestedAttribute _ _ _ attrs) \<Rightarrow> map fst attrs
      | _ \<Rightarrow> [])"

text \<open>The \<^verbatim>\<open>tfsdk\<close> tags of the fields of \<^verbatim>\<open>sdnZoneEvpnModel\<close>.\<close>

definition sdnZoneEvpnModel_tfsdk :: "string list" where
  "sdnZoneEvpnModel_tfsdk =
     [''controller'', ''vrf_vxlan'', ''mac'', ''exitnodes'', ''exitnodes_primary'',
      ''exitnodes_local_routing'', ''advertise_subnets'', ''disable_arp_nd_suppression'',
      ''rt_import'']"

section \<open>Vocabulary of the properties\<close>

text \<open>A field is populated when it holds a known value.\<close>

fun is_known :: "'a tfvalue \<Rightarrow> bool" where
  "is_known (Known _) = True"
| "is_known _ = False"

text \<open>Exactly one of the five variant blocks is set.\<close>

definition exactly_one_variant :: "sdnZoneResourceModel \<Rightarrow> bool" where
  "exactly_one_variant m =
     (length (filter id [Simple m \<noteq> None, VLAN m \<noteq> None, VXLAN m \<noteq> None,
                         QinQ m \<noteq> None, EVPN m \<noteq> None]) = 1)"

text \<open>All fields of the configuration, and of the blocks it has, are populated.\<close>

definition all_fields_populated :: "sdnZoneResourceModel \<Rightarrow> bool" where
  "all_fields_populated m =
     (is_known (Name_model m) \<and> is_known (MTU m) \<and> is_known (Nodes_model m) \<and>
      is_known (IPAM m) \<and> is_known (DNS m) \<and> is_known (ReverseDNS m) \<and>
      is_known (DNSZone m) \<and>
      (case Simple m of None \<Rightarrow> True | Some s \<Rightarrow> is_known (AutomaticDHCP s)) \<and>
      (case VLAN m of None \<Rightarrow> True | Some v \<Rightarrow> is_known (Bridge_vlan v)) \<and>
      (case VXLAN m of None \<Rightarrow> True
       | Some v \<Rightarrow> is_known (Peers_vxlan v) \<and> is_known (Port v)) \<and>
      (case QinQ m of None \<Rightarrow> True
       | Some q \<Rightarrow> is_known (Bridge_qinq q) \<and> is_known (Tag_qinq q) \<and>
           is_known (VlanProtocol_qinq q)) \<and>
      (case EVPN m of None \<Rightarrow> True
       | Some e \<Rightarrow> is_known (Controller_evpn e) \<and> is_known (VrfVxlan_evpn e) \<and>
           is_known (Mac_evpn e) \<and> is_known (Exitnodes_evpn e) \<and>
           is_known (ExitnodesPrimary_evpn e) \<and> is_known (ExitnodesLocalRouting_evpn e) \<and>
           is_known (AdvertiseSubnets_evpn e) \<and> is_known (DisableArpNdSuppression_evpn e) \<and>
           is_known (RtImport_evpn e)))"

text \<open>
  A list that the comma-joined encoding can carry: it is known and not empty, its
  elements are known strings without a comma, and it is not the list of the empty string
  alone (which joins to the empty string, as the empty list does).
\<close>

fun comma_free :: "tfString \<Rightarrow> bool" where
  "comma_free (Known s) = (CHR '','' \<notin> set s)"
| "comma_free _ = False"

definition list_survives :: "tfList \<Rightarrow> bool" where
  "list_survives l =
     (case l of
        Known es \<Rightarrow> es \<noteq> [] \<and> es \<noteq> [Known []] \<and> list_all comma_free es
      | _ \<Rightarrow> False)"

definition lists_survive :: "sdnZoneResourceModel \<Rightarrow> bool" where
  "lists_survive m =
     (list_survives (Nodes_model m) \<and>
      (case VXLAN m of None \<Rightarrow> True | Some v \<Rightarrow> list_survives (Peers_vxlan v)) \<and>
      (case EVPN m of None \<Rightarrow> True | Some e \<Rightarrow> list_survives (Exitnodes_evpn e)))"

text \<open>
  The receiver of \<open>importFromSdnZoneBody\<close> has no variant block that the configuration
  \<open>c\<close> lacks: it is a fresh model, or a model of the same variant as \<open>c\<close> (in \<open>read\<close> it
  is the planned configuration itself).
\<close>

definition receiver_blocks_within :: "sdnZoneResourceModel \<Rightarrow> sdnZoneResourceModel \<Rightarrow> bool" where
  "receiver_blocks_within m0 c =
     ((Simple m0 = None \<or> Simple c \<noteq> None) \<and> (VLAN m0 = None \<or> VLAN c \<noteq> None) \<and>
      (VXLAN m0 = None \<or> VXLAN c \<noteq> None) \<and> (QinQ m0 = None \<or> QinQ c \<noteq> None) \<and>
      (EVPN m0 = None \<or> EVPN c \<noteq> None))"

text \<open>The zero value of the model struct, \<^verbatim>\<open>sdnZoneResourceModel{}\<close>.\<close>

definition zeroModel :: sdnZoneResourceModel where
  "zeroModel =
     \<lparr>Name_model = Null, MTU = Null, Nodes_model = Null, IPAM = Null, DNS = Null,
      ReverseDNS = Null, DNSZone = Null, Simple = None, VLAN = None, VXLAN = None,
      QinQ = None, EVPN = None\<rparr>"

subsection \<open>The variants and their wire fields\<close>

text \<open>
  The five zone types in the priority order of the specification, each with its
  discriminant string.
\<close>

datatype variant = SimpleZone | VlanZone | VxlanZone | QinQZone | EvpnZone

fun discriminant :: "variant \<Rightarrow> string" where
  "discriminant SimpleZone = ''simple''"
| "discriminant VlanZone = ''vlan''"
| "discriminant VxlanZone = ''vxlan''"
| "discriminant QinQZone = ''qinq''"
| "discriminant EvpnZone = ''evpn''"

definition variants :: "variant list" where
  "variants = [SimpleZone, VlanZone, VxlanZone, QinQZone, EvpnZone]"

fun block_set :: "sdnZoneResourceModel \<Rightarrow> variant \<Rightarrow> bool" where
  "block_set m SimpleZone = (Simple m \<noteq> None)"
| "block_set m VlanZone = (VLAN m \<noteq> None)"
| "block_set m VxlanZone = (VXLAN m \<noteq> None)"
| "block_set m QinQZone = (QinQ m \<noteq> None)"
| "block_set m EvpnZone = (EVPN m \<noteq> None)"

text \<open>The first variant, in priority order, whose block is not nil.\<close>

definition first_variant :: "sdnZoneResourceModel \<Rightarrow> variant option" where
  "first_variant m = find (block_set m) variants"

text \<open>
  The comma-joined string of a list field: its elements' strings joined by commas, and
  absent for a null or unknown list.
\<close>

definition list_string :: "tfList \<Rightarrow> string option" where
  "list_string l =
     (case l of Known es \<Rightarrow> Some (Join (map ValueString es) '','') | _ \<Rightarrow> None)"

text \<open>The name and the base fields of a configuration, as a wire record.\<close>

definition base_record :: "sdnZoneResourceModel \<Rightarrow> SdnZoneBody" where
  "base_record m =
     zeroSdnZoneBody
       \<lparr>Name := ValueString (Name_model m),
        Mtu := ValueInt32Pointer (MTU m),
        Nodes := list_string (Nodes_model m),
        Ipam := ValueStringPointer (IPAM m),
        Dns := ValueStringPointer (DNS m),
        Reversedns := ValueStringPointer (ReverseDNS m),
        Dnszone := ValueStringPointer (DNSZone m)\<rparr>"

text \<open>
  What the specification asks of the variant's fields: the wire record that holds the
  fields of the block of variant \<open>v\<close>, each through its pointer accessor (a list as its
  comma-joined string), and nothing else.
\<close>

fun variant_fields_spec :: "sdnZoneResourceModel \<Rightarrow> variant \<Rightarrow> SdnZoneBody" where
  "variant_fields_spec m SimpleZone =
     (case Simple m of None \<Rightarrow> zeroSdnZoneBody
      | Some s \<Rightarrow> zeroSdnZoneBody\<lparr>Dhcp := ValueStringPointer (AutomaticDHCP s)\<rparr>)"
| "variant_fields_spec m VlanZone =
     (case VLAN m of None \<Rightarrow> zeroSdnZoneBody
      | Some v \<Rightarrow> zeroSdnZoneBody\<lparr>Bridge := ValueStringPointer (Bridge_vlan v)\<rparr>)"
| "variant_fields_spec m VxlanZone =
     (case VXLAN m of None \<Rightarrow> zeroSdnZoneBody
      | Some v \<Rightarrow> zeroSdnZoneBody
          \<lparr>Peers := list_string (Peers_vxlan v),
           VxlanPort := ValueInt32Pointer (Port v)\<rparr>)"
| "variant_fields_spec m QinQZone =
     (case QinQ m of None \<Rightarrow> zeroSdnZoneBody
      | Some q \<Rightarrow> zeroSdnZoneBody
          \<lparr>Bridge := ValueStringPointer (Bridge_qinq q),
           Tag := ValueInt32Pointer (Tag_qinq q),
           VlanProtocol := ValueStringPointer (VlanProtocol_qinq q)\<rparr>)"
| "variant_fields_spec m EvpnZone =
     (case EVPN m of None \<Rightarrow> zeroSdnZoneBody
      | Some e \<Rightarrow> zeroSdnZoneBody
          \<lparr>AdvertiseSubnets := ValueBoolPointer (AdvertiseSubnets_evpn e),
           Controller := ValueStringPointer (Controller_evpn e),
           DisableArpNdSuppression := ValueBoolPointer (DisableArpNdSuppression_evpn e),
           Exitnodes := list_string (Exitnodes_evpn e),
           ExitnodesLocalRouting := ValueBoolPointer (ExitnodesLocalRouting_evpn e),
           ExitnodesPrimary := ValueStringPointer (ExitnodesPrimary_evpn e),
           Mac := ValueStringPointer (Mac_evpn e),
           RtImport := ValueStringPointer (RtImport_evpn e),
           VrfVxlan := ValueInt32Pointer (VrfVxlan_evpn e)\<rparr>)"

text \<open>A wire record without its name, its type and its base fields: the variant's part.\<close>

definition variant_part :: "SdnZoneBody \<Rightarrow> SdnZoneBody" where
  "variant_part b =
     b\<lparr>Name := [], Type := None, Mtu := None, Nodes := None, Ipam := None, Dns := None,
       Reversedns := None, Dnszone := None\<rparr>"

text \<open>
  The wire names of the optional fields, each with whether the field is nil in a given
  record (the \<^verbatim>\<open>url\<close> tags of \<^verbatim>\<open>SdnZoneBody\<close>, in the order of the struct).
\<close>

definition wire_fields :: "SdnZoneBody \<Rightarrow> (string \<times> bool) list" where
  "wire_fields b =
     [(''type'', Type b = None), (''delete'', Delete b = None),
      (''advertise-subnets'', AdvertiseSubnets b = None), (''bridge'', Bridge b = None),
      (''bridge-disable-mac-learning'', BridgeDisableMacLearning b = None),
      (''controller'', Controller b = None), (''dhcp'', Dhcp b = None),
      (''disable-arp-nd-suppression'', DisableArpNdSuppression b = None),
      (''dns'', Dns b = None), (''dnszone'', Dnszone b = None), (''dp-id'', DpID b = None),
      (''exitnodes'', Exitnodes b = None),
      (''exitnodes-local-routing'', ExitnodesLocalRouting b = None),
      (''exitnodes-primary'', ExitnodesPrimary b = None), (''ipam'', Ipam b = None),
      (''mac'', Mac b = None), (''mtu'', Mtu b = None), (''nodes'', Nodes b = None),
      (''peers'', Peers b = None), (''reversedns'', Reversedns b = None),
      (''rt-import'', RtImport b = None), (''tag'', Tag b = None),
      (''vlan-protocol'', VlanProtocol b = None), (''vrf-vxlan'', VrfVxlan b = None),
      (''vxlan-port'', VxlanPort b = None)]"

definition field_is_nil :: "SdnZoneBody \<Rightarrow> string \<Rightarrow> bool" where
  "field_is_nil b name = (case map_of (wire_fields b) name of Some nil \<Rightarrow> nil | None \<Rightarrow> False)"

text \<open>
  The optional fields applicable to a zone type: the base fields, then the fields of the
  variant of that type.
\<close>

definition base_fields :: "string list" where
  "base_fields = [''mtu'', ''nodes'', ''ipam'', ''dns'', ''reversedns'', ''dnszone'']"

definition variant_fields :: "string \<Rightarrow> string list" where
  "variant_fields t =
     (if t = ''simple'' then [''dhcp'']
      else if t = ''vlan'' then [''bridge'']
      else if t = ''vxlan'' then [''peers'', ''vxlan-port'']
      else if t = ''qinq'' then [''bridge'', ''tag'', ''vlan-protocol'']
      else if t = ''evpn'' then
        [''controller'', ''vrf-vxlan'', ''mac'', ''exitnodes'', ''exitnodes-primary'',
         ''exitnodes-local-routing'', ''advertise-subnets'', ''disable-arp-nd-suppression'',
         ''rt-import'']
      else [])"

definition applicable_fields :: "string \<Rightarrow> string list" where
  "applicable_fields t = base_fields @ variant_fields t"

text \<open>The names that the comma-joined \<^verbatim>\<open>delete\<close> field of an update body lists.\<close>

definition delete_list :: "SdnZoneBody \<Rightarrow> string list" where
  "delete_list b = (case Delete b of None \<Rightarrow> [] | Some s \<Rightarrow> Split s (CHR '',''))"

text \<open>
  What the specification asks of the update body of a wire record \<open>b\<close> of type \<open>t\<close>:
  the record without its type, with the comma-joined names of the applicable fields that
  are nil in it as its \<^verbatim>\<open>delete\<close> field when there are any.
\<close>

definition update_spec :: "SdnZoneBody \<Rightarrow> string \<Rightarrow> SdnZoneBody" where
  "update_spec b t =
     (let dt = filter (field_is_nil b) (applicable_fields t)
      in (if dt = [] then b else b\<lparr>Delete := Some (Join dt '','')\<rparr>)\<lparr>Type := None\<rparr>)"

text \<open>The five type strings that \<open>importFromSdnZoneBody\<close> is to recognize.\<close>

definition zone_types :: "string list" where
  "zone_types = map discriminant variants"

subsection \<open>Sample configurations\<close>

definition sample_base :: sdnZoneResourceModel where
  "sample_base =
     \<lparr>Name_model = Known ''zone1'', MTU = Known 1450,
      Nodes_model = Known [Known ''pve1'', Known ''pve2''], IPAM = Known ''pve'',
      DNS = Known ''dns1'', ReverseDNS = Known ''rdns1'', DNSZone = Known ''example.com'',
      Simple = None, VLAN = None, VXLAN = None, QinQ = None, EVPN = None\<rparr>"

definition sample_simple :: sdnZoneResourceModel where
  "sample_simple = sample_base\<lparr>Simple := Some \<lparr>AutomaticDHCP = Known ''dnsmasq''\<rparr>\<rparr>"

definition sample_vlan :: sdnZoneResourceModel where
  "sample_vlan = sample_base\<lparr>VLAN := Some \<lparr>Bridge_vlan = Known ''vmbr0''\<rparr>\<rparr>"

definition sample_vxlan :: sdnZoneResourceModel where
  "sample_vxlan =
     sample_base\<lparr>VXLAN := Some \<lparr>Peers_vxlan = Known [Known ''10.0.0.1'', Known ''10.0.0.2''],
                                 Port = Known 4789\<rparr>\<rparr>"

definition sample_qinq :: sdnZoneResourceModel where
  "sample_qinq =
     sample_base\<lparr>QinQ := Some \<lparr>Bridge_qinq = Known ''vmbr0'', Tag_qinq = Known 100,
                                VlanProtocol_qinq = Known ''802.1ad''\<rparr>\<rparr>"

definition sample_evpn :: sdnZoneResourceModel where
  "sample_evpn =
     sample_base\<lparr>EVPN := Some
       \<lparr>Controller_evpn = Known ''ctrl1'', VrfVxlan_evpn = Known 4000,
        Mac_evpn = Known ''32:F4:05:FE:6C:0A'', Exitnodes_evpn = Known [Known ''pve1''],
        ExitnodesPrimary_evpn = Known ''pve1'', ExitnodesLocalRouting_evpn = Known True,
        AdvertiseSubnets_evpn = Known False, DisableArpNdSuppression_evpn = Known True,
        RtImport_evpn = Known ''65000:4000''\<rparr>\<rparr>"

text \<open>A configuration with two blocks set, which the schema's validator would refuse.\<close>

definition sample_two_blocks :: sdnZoneResourceModel where
  "sample_two_blocks = sample_evpn\<lparr>VLAN := Some \<lparr>Bridge_vlan = Known ''vmbr0''\<rparr>\<rparr>"

text \<open>An EVPN zone without a DNS server, a MAC address and exit nodes.\<close>

definition sample_sparse :: sdnZoneResourceModel where
  "sample_sparse =
     sample_base\<lparr>DNS := Null, EVPN := Some
       \<lparr>Controller_evpn = Known ''ctrl1'', VrfVxlan_evpn = Known 4000,
        Mac_evpn = Null, Exitnodes_evpn = Null,
        ExitnodesPrimary_evpn = Known ''pve1'', ExitnodesLocalRouting_evpn = Known True,
        AdvertiseSubnets_evpn = Known False, DisableArpNdSuppression_evpn = Known True,
        RtImport_evpn = Known ''65000:4000''\<rparr>\<rparr>"

text \<open>A VLAN zone whose one node name holds a comma.\<close>

definition sample_comma :: sdnZoneResourceModel where
  "sample_comma = sample_vlan\<lparr>Nodes_model := Known [Known ''pve1,pve2'']\<rparr>"

text \<open>
  Two entries of a list in the order of their names, both of them records; and the
  records among the entries of a list.
\<close>

fun name_ordered :: "SdnZoneBody option \<Rightarrow> SdnZoneBody option \<Rightarrow> bool" where
  "name_ordered (Some a) (Some b) = (Name a \<le> Name b)"
| "name_ordered _ _ = False"

fun records :: "'a option list \<Rightarrow> 'a list" where
  "records [] = []"
| "records (None # zs) = records zs"
| "records (Some r # zs) = r # records zs"

subsection \<open>Sample wire records and errors\<close>

text \<open>A record without a type, and a record of the API's sixth type.\<close>

definition typeless_record :: SdnZoneBody where
  "typeless_record = zeroSdnZoneBody\<lparr>Name := ''zone1''\<rparr>"

definition faucet_record :: SdnZoneBody where
  "faucet_record = zeroSdnZoneBody\<lparr>Name := ''zone1'', Type := Some ''faucet''\<rparr>"

definition zone_named :: "string \<Rightarrow> SdnZoneBody" where
  "zone_named n = zeroSdnZoneBody\<lparr>Name := n, Type := Some ''vlan'', Bridge := Some ''vmbr0''\<rparr>"

text \<open>
  Responses of \<^verbatim>\<open>List\<close>: four zones out of order; thirteen zones out of order, two
  of them of one name, with an order of the thirteen by name in which the two have
  changed places; and an array of two null entries.
\<close>

definition zone_on :: "string \<Rightarrow> string \<Rightarrow> SdnZoneBody" where
  "zone_on n b = zeroSdnZoneBody\<lparr>Name := n, Type := Some ''vlan'', Bridge := Some b\<rparr>"

definition short_response :: "SdnZoneBody option list" where
  "short_response =
     [Some (zone_named ''zb''), Some (zone_named ''za''), Some (zone_named ''zc''),
      Some (zone_named ''z'')]"

definition short_sorted :: "SdnZoneBody option list" where
  "short_sorted =
     [Some (zone_named ''z''), Some (zone_named ''za''), Some (zone_named ''zb''),
      Some (zone_named ''zc'')]"

definition long_response :: "SdnZoneBody option list" where
  "long_response =
     [Some (zone_named ''z13''), Some (zone_named ''z12''),
      Some (zone_named ''z11''), Some (zone_named ''z10''),
      Some (zone_named ''z09''), Some (zone_on ''z07'' ''vmbr1''),
      Some (zone_named ''z07''), Some (zone_named ''z06''),
      Some (zone_named ''z05''), Some (zone_named ''z04''),
      Some (zone_named ''z03''), Some (zone_named ''z02''), Some (zone_named ''z01'')]"

definition long_sorted :: "SdnZoneBody option list" where
  "long_sorted =
     [Some (zone_named ''z01''), Some (zone_named ''z02''),
      Some (zone_named ''z03''), Some (zone_named ''z04''),
      Some (zone_named ''z05''), Some (zone_named ''z06''),
      Some (zone_named ''z07''), Some (zone_on ''z07'' ''vmbr1''),
      Some (zone_named ''z09''), Some (zone_named ''z10''),
      Some (zone_named ''z11''), Some (zone_named ''z12''), Some (zone_named ''z13'')]"

definition null_entries_response :: SdnZoneListResponseBody where
  "null_entries_response = \<lparr>Data_list = Some [None, None]\<rparr>"

definition not_found_error :: go_error where
  "not_found_error =
     RequestError ''received an HTTP 500 response - Reason: sdn zone object ID zone1 does not exist''"

definition refused_error :: go_error where
  "refused_error =
     RequestError ''received an HTTP 403 response - Reason: Permission check failed''"

section \<open>Lists and comma-joined strings\<close>

lemma Split_not_Nil: "Split s c \<noteq> []"
  by (induction s) auto

lemma Split_no_sep: "c \<notin> set x \<Longrightarrow> Split x c = [x]"
  by (induction x) auto

lemma Split_append_sep: "c \<notin> set x \<Longrightarrow> Split (x @ c # rest) c = x # Split rest c"
  by (induction x) auto

lemma Split_Join:
  "xs \<noteq> [] \<Longrightarrow> list_all (\<lambda>x. c \<notin> set x) xs \<Longrightarrow> Split (Join xs [c]) c = xs"
proof (induction xs "[c]" rule: Join.induct)
  case 1
  then show ?case by simp
next
  case (2 x)
  then show ?case by (simp add: Split_no_sep)
next
  case (3 x y ys)
  then show ?case by (simp add: Split_append_sep)
qed

lemma Join_eq_Nil: "Join xs sep = [] \<Longrightarrow> sep \<noteq> [] \<Longrightarrow> xs = [] \<or> xs = [[]]"
  by (induction xs sep rule: Join.induct) auto

lemma Append_Nil: "Append diags [] = diags"
  by (simp add: Append_def)

lemma convertListToString_Known:
  "convertListToString (Known es) diags = (Some (Join (map ValueString es) '',''), diags)"
  by (simp add: convertListToString_def ElementsAs_def Append_Nil)

lemma convertListToString_eq: "convertListToString l diags = (list_string l, diags)"
  by (cases l) (simp_all add: convertListToString_def list_string_def ElementsAs_def Append_Nil)

text \<open>
  C3, as the code has it: the list \<open>["a","b","c"]\<close> becomes \<open>"a,b,c"\<close> and comes back;
  a null or unknown list becomes the nil string, and a nil or empty string becomes the
  null list; the empty known list becomes a pointer to the empty string, not nil.
\<close>

theorem list_string_conversion:
  "convertListToString (Known [Known ''a'', Known ''b'', Known ''c'']) diags
     = (Some ''a,b,c'', diags) \<and>
   convertStringToList (Some ''a,b,c'') diags
     = (Known [Known ''a'', Known ''b'', Known ''c''], diags) \<and>
   convertListToString Null diags = (None, diags) \<and>
   convertListToString Unknown diags = (None, diags) \<and>
   convertListToString (Known []) diags = (Some [], diags) \<and>
   convertStringToList None diags = (Null, diags) \<and>
   convertStringToList (Some []) diags = (Null, diags)"
  by (simp add: convertListToString_def convertStringToList_def ElementsAs_def
      ListValueFrom_def Append_Nil ValueString_def StringValue_def ListNull_def)

text \<open>
  C3 as stated fails on the empty list: \<open>convertListToString\<close> does not map it to the
  nil string.
\<close>

theorem empty_list_not_nil_string: "fst (convertListToString (Known []) []) \<noteq> None"
  by (simp add: convertListToString_Known)

section \<open>Round trip through the wire record\<close>

lemma string_pointer_roundtrip: "is_known x \<Longrightarrow> StringPointerValue (ValueStringPointer x) = x"
  by (cases x) (simp_all add: StringPointerValue_def ValueStringPointer_def)

lemma int32_pointer_roundtrip: "is_known x \<Longrightarrow> Int32PointerValue (ValueInt32Pointer x) = x"
  by (cases x) (simp_all add: Int32PointerValue_def ValueInt32Pointer_def)

lemma bool_pointer_roundtrip: "is_known x \<Longrightarrow> BoolPointerValue (ValueBoolPointer x) = x"
  by (cases x) (simp_all add: BoolPointerValue_def ValueBoolPointer_def)

lemma string_value_roundtrip: "is_known x \<Longrightarrow> StringValue (ValueString x) = x"
  by (cases x) (simp_all add: StringValue_def ValueString_def)

lemma map_StringValue_ValueString:
  "list_all comma_free es \<Longrightarrow> map (StringValue \<circ> ValueString) es = es"
proof (induction es)
  case Nil
  then show ?case by simp
next
  case (Cons e es)
  then show ?case by (cases e) (simp_all add: StringValue_def ValueString_def)
qed

lemma comma_free_ValueString:
  "list_all comma_free es \<Longrightarrow> list_all (\<lambda>x. CHR '','' \<notin> set x) (map ValueString es)"
proof (induction es)
  case Nil
  then show ?case by simp
next
  case (Cons e es)
  then show ?case by (cases e) (simp_all add: ValueString_def)
qed

text \<open>A list that the encoding can carry comes back from its string as it was.\<close>

lemma list_roundtrip:
  assumes "list_survives l" and "convertListToString l d = (x, d1)"
  shows "convertStringToList x d' = (l, d')"
proof -
  from assms(1) obtain es where l: "l = Known es" and ne: "es \<noteq> []"
    and ne1: "es \<noteq> [Known []]" and cf: "list_all comma_free es"
    by (cases l) (auto simp: list_survives_def)
  let ?ss = "map ValueString es"
  have x: "x = Some (Join ?ss '','')"
    using assms(2) by (simp add: l convertListToString_Known)
  have "?ss \<noteq> [[]]"
  proof
    assume "?ss = [[]]"
    then obtain e where e: "es = [e]" "ValueString e = []" by auto
    with cf have "e = Known []" by (cases e) (simp_all add: ValueString_def)
    with e ne1 show False by simp
  qed
  with ne have j: "Join ?ss '','' \<noteq> []"
    using Join_eq_Nil [of ?ss "'',''"] by auto
  have "Split (Join ?ss '','') (CHR '','') = ?ss"
    using Split_Join [of ?ss "CHR '',''"] ne comma_free_ValueString [OF cf] by simp
  with j show ?thesis
    by (simp add: x l convertStringToList_def ListValueFrom_def Append_Nil
        map_StringValue_ValueString [OF cf])
qed

lemma Split_parts_no_sep: "p \<in> set (Split s c) \<Longrightarrow> c \<notin> set p"
proof (induction s arbitrary: p)
  case Nil
  then show ?case by simp
next
  case (Cons x xs)
  obtain q qs where q: "Split xs c = q # qs"
    using Split_not_Nil [of xs c] by (cases "Split xs c") auto
  with Cons show ?case
    by (auto split: if_splits)
qed

text \<open>
  No other list comes back as it was: an unknown list comes back null, and a known list
  that the encoding cannot carry comes back null or as another list.
\<close>

lemma list_roundtrip_only:
  assumes "convertStringToList (list_string l) d = (l, d)"
  shows "l = Null \<or> list_survives l"
proof (cases l)
  case Null
  then show ?thesis by simp
next
  case Unknown
  with assms show ?thesis
    by (simp add: list_string_def convertStringToList_def ListNull_def)
next
  case (Known es)
  let ?ss = "map ValueString es"
  let ?j = "Join ?ss '',''"
  from assms Known have j: "?j \<noteq> []"
    by (auto simp: list_string_def convertStringToList_def ListNull_def)
  with assms Known have es: "map StringValue (Split ?j (CHR '','')) = es"
    by (simp add: list_string_def convertStringToList_def ListValueFrom_def Append_Nil)
  then have "map ValueString (map StringValue (Split ?j (CHR '',''))) = ?ss"
    by simp
  then have ss: "Split ?j (CHR '','') = ?ss"
    by (simp add: comp_def ValueString_def StringValue_def)
  have cf: "list_all comma_free es"
  proof -
    have "\<forall>e \<in> set (map StringValue (Split ?j (CHR '',''))). comma_free e"
      by (auto simp: StringValue_def dest: Split_parts_no_sep)
    with es show ?thesis by (simp add: list_all_iff)
  qed
  have "es \<noteq> []"
    using es Split_not_Nil [of ?j "CHR '',''"] by auto
  moreover have "es \<noteq> [Known []]"
    using j by (auto simp: ValueString_def)
  ultimately show ?thesis
    using cf Known by (simp add: list_survives_def)
qed

lemma exactly_one_variant_cases:
  assumes "exactly_one_variant m"
  obtains
    (simple) s where "Simple m = Some s" "VLAN m = None" "VXLAN m = None" "QinQ m = None"
      "EVPN m = None"
  | (vlan) v where "Simple m = None" "VLAN m = Some v" "VXLAN m = None" "QinQ m = None"
      "EVPN m = None"
  | (vxlan) v where "Simple m = None" "VLAN m = None" "VXLAN m = Some v" "QinQ m = None"
      "EVPN m = None"
  | (qinq) q where "Simple m = None" "VLAN m = None" "VXLAN m = None" "QinQ m = Some q"
      "EVPN m = None"
  | (evpn) e where "Simple m = None" "VLAN m = None" "VXLAN m = None" "QinQ m = None"
      "EVPN m = Some e"
  using assms unfolding exactly_one_variant_def
  by (cases "Simple m"; cases "VLAN m"; cases "VXLAN m"; cases "QinQ m"; cases "EVPN m")
    simp_all

text \<open>
  C1, amended: for every configuration with exactly one variant block set and all fields
  populated, in which every list field holds a list that the comma-joined encoding can
  carry (not empty, of known strings without a comma, and not the empty string alone),
  \<open>exportToSdnZoneBody\<close> followed by \<open>importFromSdnZoneBody\<close>, into a receiver with no
  variant block that the configuration lacks, yields the configuration, whichever of the
  five variants it is; the import reports nothing.
\<close>

theorem export_import_roundtrip:
  assumes one: "exactly_one_variant c"
    and pop: "all_fields_populated c"
    and lists: "lists_survive c"
    and recv: "receiver_blocks_within m0 c"
  shows "importFromSdnZoneBody m0 (fst (exportToSdnZoneBody c diags)) diags' = Inr (c, diags')"
proof -
  have nodes: "convertStringToList x diags' = (Nodes_model c, diags')"
    if "convertListToString (Nodes_model c) d = (x, d1)" for x d d1
    using lists that by (simp add: lists_survive_def list_roundtrip)
  note rt = string_pointer_roundtrip int32_pointer_roundtrip bool_pointer_roundtrip
    string_value_roundtrip
  note defs = exportToSdnZoneBody_def importFromSdnZoneBody_def zeroSdnZoneBody_def
    all_fields_populated_def receiver_blocks_within_def
  from one show ?thesis
  proof (cases rule: exactly_one_variant_cases)
    case (simple s)
    with pop recv show ?thesis
      by (auto simp: defs rt nodes split: prod.splits
          intro!: sdnZoneResourceModel.equality sdnZoneSimpleModel.equality)
  next
    case (vlan v)
    with pop recv show ?thesis
      by (auto simp: defs rt nodes split: prod.splits
          intro!: sdnZoneResourceModel.equality sdnZoneVlanModel.equality)
  next
    case (vxlan v)
    have peers: "convertStringToList x diags' = (Peers_vxlan v, diags')"
      if "convertListToString (Peers_vxlan v) d = (x, d1)" for x d d1
      using lists vxlan that by (simp add: lists_survive_def list_roundtrip)
    from vxlan pop recv show ?thesis
      by (auto simp: defs rt nodes peers split: prod.splits
          intro!: sdnZoneResourceModel.equality sdnZoneVxlanModel.equality)
  next
    case (qinq q)
    with pop recv show ?thesis
      by (auto simp: defs rt nodes split: prod.splits
          intro!: sdnZoneResourceModel.equality sdnZoneQinQModel.equality)
  next
    case (evpn e)
    have exitnodes: "convertStringToList x diags' = (Exitnodes_evpn e, diags')"
      if "convertListToString (Exitnodes_evpn e) d = (x, d1)" for x d d1
      using lists evpn that by (simp add: lists_survive_def list_roundtrip)
    from evpn pop recv show ?thesis
      by (auto simp: defs rt nodes exitnodes split: prod.splits
          intro!: sdnZoneResourceModel.equality sdnZoneEvpnModel.equality)
  qed
qed

lemmas sample_defs = sample_base_def sample_simple_def sample_vlan_def sample_vxlan_def
  sample_qinq_def sample_evpn_def zeroModel_def

lemmas populated_defs = exactly_one_variant_def all_fields_populated_def lists_survive_def
  list_survives_def receiver_blocks_within_def

theorem export_import_roundtrip_witness:
  "(exactly_one_variant sample_simple \<and> all_fields_populated sample_simple \<and>
    lists_survive sample_simple \<and> receiver_blocks_within zeroModel sample_simple \<and>
    importFromSdnZoneBody zeroModel (fst (exportToSdnZoneBody sample_simple [])) []
      = Inr (sample_simple, [])) \<and>
   (exactly_one_variant sample_vlan \<and> all_fields_populated sample_vlan \<and>
    lists_survive sample_vlan \<and> receiver_blocks_within sample_vlan sample_vlan \<and>
    importFromSdnZoneBody sample_vlan (fst (exportToSdnZoneBody sample_vlan [])) []
      = Inr (sample_vlan, [])) \<and>
   (exactly_one_variant sample_vxlan \<and> all_fields_populated sample_vxlan \<and>
    lists_survive sample_vxlan \<and> receiver_blocks_within zeroModel sample_vxlan \<and>
    importFromSdnZoneBody zeroModel (fst (exportToSdnZoneBody sample_vxlan [])) []
      = Inr (sample_vxlan, [])) \<and>
   (exactly_one_variant sample_qinq \<and> all_fields_populated sample_qinq \<and>
    lists_survive sample_qinq \<and> receiver_blocks_within zeroModel sample_qinq \<and>
    importFromSdnZoneBody zeroModel (fst (exportToSdnZoneBody sample_qinq [])) []
      = Inr (sample_qinq, [])) \<and>
   (exactly_one_variant sample_evpn \<and> all_fields_populated sample_evpn \<and>
    lists_survive sample_evpn \<and> receiver_blocks_within zeroModel sample_evpn \<and>
    importFromSdnZoneBody zeroModel (fst (exportToSdnZoneBody sample_evpn [])) []
      = Inr (sample_evpn, []))"
proof -
  have simple: "exactly_one_variant sample_simple" "all_fields_populated sample_simple"
    "lists_survive sample_simple" "receiver_blocks_within zeroModel sample_simple"
    by (simp_all add: sample_defs populated_defs)
  have vlan: "exactly_one_variant sample_vlan" "all_fields_populated sample_vlan"
    "lists_survive sample_vlan" "receiver_blocks_within sample_vlan sample_vlan"
    by (simp_all add: sample_defs populated_defs)
  have vxlan: "exactly_one_variant sample_vxlan" "all_fields_populated sample_vxlan"
    "lists_survive sample_vxlan" "receiver_blocks_within zeroModel sample_vxlan"
    by (simp_all add: sample_defs populated_defs)
  have qinq: "exactly_one_variant sample_qinq" "all_fields_populated sample_qinq"
    "lists_survive sample_qinq" "receiver_blocks_within zeroModel sample_qinq"
    by (simp_all add: sample_defs populated_defs)
  have evpn: "exactly_one_variant sample_evpn" "all_fields_populated sample_evpn"
    "lists_survive sample_evpn" "receiver_blocks_within zeroModel sample_evpn"
    by (simp_all add: sample_defs populated_defs)
  show ?thesis
    using simple vlan vxlan qinq evpn
      export_import_roundtrip [OF simple, of "[]" "[]"]
      export_import_roundtrip [OF vlan, of "[]" "[]"]
      export_import_roundtrip [OF vxlan, of "[]" "[]"]
      export_import_roundtrip [OF qinq, of "[]" "[]"]
      export_import_roundtrip [OF evpn, of "[]" "[]"]
    by blast
qed

text \<open>
  C1 as stated fails where a populated list holds a string with a comma: the one node
  name \<open>"pve1,pve2"\<close> comes back as the two names \<open>"pve1"\<close> and \<open>"pve2"\<close>.
\<close>

theorem roundtrip_breaks_on_comma:
  "exactly_one_variant sample_comma \<and> all_fields_populated sample_comma \<and>
   importFromSdnZoneBody zeroModel (fst (exportToSdnZoneBody sample_comma [])) []
     = Inr (sample_comma\<lparr>Nodes_model := Known [Known ''pve1'', Known ''pve2'']\<rparr>, []) \<and>
   importFromSdnZoneBody zeroModel (fst (exportToSdnZoneBody sample_comma [])) []
     \<noteq> Inr (sample_comma, [])"
  by (simp add: sample_defs sample_comma_def exactly_one_variant_def all_fields_populated_def
      exportToSdnZoneBody_def importFromSdnZoneBody_def zeroSdnZoneBody_def
      convertListToString_def convertStringToList_def ElementsAs_def ListValueFrom_def
      Append_Nil ValueString_def StringValue_def ValueStringPointer_def ValueInt32Pointer_def
      StringPointerValue_def Int32PointerValue_def ListNull_def)

section \<open>Export to the wire record\<close>

lemma first_variant_cases:
  "first_variant m =
     (if Simple m \<noteq> None then Some SimpleZone
      else if VLAN m \<noteq> None then Some VlanZone
      else if VXLAN m \<noteq> None then Some VxlanZone
      else if QinQ m \<noteq> None then Some QinQZone
      else if EVPN m \<noteq> None then Some EvpnZone
      else None)"
  by (simp add: first_variant_def variants_def)

lemmas export_unfold = exportToSdnZoneBody_def Let_def convertListToString_eq base_record_def

lemma export_simple:
  "Simple m = Some s \<Longrightarrow>
   exportToSdnZoneBody m d =
     (base_record m\<lparr>Dhcp := ValueStringPointer (AutomaticDHCP s), Type := Some ''simple''\<rparr>, d)"
  by (simp add: export_unfold)

lemma export_vlan:
  "Simple m = None \<Longrightarrow> VLAN m = Some v \<Longrightarrow>
   exportToSdnZoneBody m d =
     (base_record m\<lparr>Bridge := ValueStringPointer (Bridge_vlan v), Type := Some ''vlan''\<rparr>, d)"
  by (simp add: export_unfold)

lemma export_vxlan:
  "Simple m = None \<Longrightarrow> VLAN m = None \<Longrightarrow> VXLAN m = Some v \<Longrightarrow>
   exportToSdnZoneBody m d =
     (base_record m\<lparr>Peers := list_string (Peers_vxlan v),
                    VxlanPort := ValueInt32Pointer (Port v), Type := Some ''vxlan''\<rparr>, d)"
  by (simp add: export_unfold)

lemma export_qinq:
  "Simple m = None \<Longrightarrow> VLAN m = None \<Longrightarrow> VXLAN m = None \<Longrightarrow> QinQ m = Some q \<Longrightarrow>
   exportToSdnZoneBody m d =
     (base_record m\<lparr>Bridge := ValueStringPointer (Bridge_qinq q),
                    Tag := ValueInt32Pointer (Tag_qinq q),
                    VlanProtocol := ValueStringPointer (VlanProtocol_qinq q),
                    Type := Some ''qinq''\<rparr>, d)"
  by (simp add: export_unfold)

lemma export_evpn:
  "Simple m = None \<Longrightarrow> VLAN m = None \<Longrightarrow> VXLAN m = None \<Longrightarrow> QinQ m = None \<Longrightarrow>
   EVPN m = Some e \<Longrightarrow>
   exportToSdnZoneBody m d =
     (base_record m\<lparr>Controller := ValueStringPointer (Controller_evpn e),
                    VrfVxlan := ValueInt32Pointer (VrfVxlan_evpn e),
                    Mac := ValueStringPointer (Mac_evpn e),
                    Exitnodes := list_string (Exitnodes_evpn e),
                    ExitnodesPrimary := ValueStringPointer (ExitnodesPrimary_evpn e),
                    ExitnodesLocalRouting := ValueBoolPointer (ExitnodesLocalRouting_evpn e),
                    AdvertiseSubnets := ValueBoolPointer (AdvertiseSubnets_evpn e),
                    DisableArpNdSuppression :=
                      ValueBoolPointer (DisableArpNdSuppression_evpn e),
                    RtImport := ValueStringPointer (RtImport_evpn e),
                    Type := Some ''evpn''\<rparr>, d)"
  by (simp add: export_unfold)

lemma export_none:
  "Simple m = None \<Longrightarrow> VLAN m = None \<Longrightarrow> VXLAN m = None \<Longrightarrow> QinQ m = None \<Longrightarrow>
   EVPN m = None \<Longrightarrow>
   exportToSdnZoneBody m d = (base_record m\<lparr>Type := Some []\<rparr>, d)"
  by (simp add: export_unfold)

lemmas export_cases = export_simple export_vlan export_vxlan export_qinq export_evpn export_none

lemma export_Type:
  "Type (fst (exportToSdnZoneBody m diags))
     = Some (case first_variant m of None \<Rightarrow> [] | Some v \<Rightarrow> discriminant v)"
  by (cases "Simple m"; cases "VLAN m"; cases "VXLAN m"; cases "QinQ m"; cases "EVPN m")
    (simp_all add: export_cases first_variant_cases)

lemma export_variant_part:
  "variant_part (fst (exportToSdnZoneBody m diags))
     = (case first_variant m of None \<Rightarrow> zeroSdnZoneBody | Some v \<Rightarrow> variant_fields_spec m v)"
  by (cases "Simple m"; cases "VLAN m"; cases "VXLAN m"; cases "QinQ m"; cases "EVPN m")
    (simp_all add: export_cases first_variant_cases variant_part_def base_record_def zeroSdnZoneBody_def)

lemma exactly_one_first:
  "exactly_one_variant m \<Longrightarrow> block_set m v \<Longrightarrow> first_variant m = Some v"
  by (erule exactly_one_variant_cases; cases v; simp add: first_variant_cases)

text \<open>
  C5: \<open>exportToSdnZoneBody\<close> sets the type of the wire record to the discriminant of the
  first variant block, in the order simple, vlan, vxlan, qinq, evpn, that is not nil, and
  the variant's part of the record holds exactly the fields of that block; when exactly
  one block is set, the type is the discriminant of that block.
\<close>

theorem export_type_matches_first_variant:
  "(let b = fst (exportToSdnZoneBody m diags) in
      Type b = Some (case first_variant m of None \<Rightarrow> [] | Some v \<Rightarrow> discriminant v) \<and>
      variant_part b =
        (case first_variant m of None \<Rightarrow> zeroSdnZoneBody | Some v \<Rightarrow> variant_fields_spec m v) \<and>
      (exactly_one_variant m \<longrightarrow>
         (\<forall>v. block_set m v \<longrightarrow> first_variant m = Some v \<and> Type b = Some (discriminant v))))"
  unfolding Let_def
proof (intro conjI impI allI)
  show "Type (fst (exportToSdnZoneBody m diags))
     = Some (case first_variant m of None \<Rightarrow> [] | Some v \<Rightarrow> discriminant v)"
    by (rule export_Type)
  show "variant_part (fst (exportToSdnZoneBody m diags))
     = (case first_variant m of None \<Rightarrow> zeroSdnZoneBody | Some v \<Rightarrow> variant_fields_spec m v)"
    by (rule export_variant_part)
next
  fix v assume "exactly_one_variant m" "block_set m v"
  then show fv: "first_variant m = Some v" by (rule exactly_one_first)
  then show "Type (fst (exportToSdnZoneBody m diags)) = Some (discriminant v)"
    by (simp add: export_Type)
qed

theorem export_type_matches_first_variant_witness:
  "first_variant sample_two_blocks = Some VlanZone \<and>
   Type (fst (exportToSdnZoneBody sample_two_blocks [])) = Some ''vlan'' \<and>
   variant_part (fst (exportToSdnZoneBody sample_two_blocks []))
     = zeroSdnZoneBody\<lparr>Bridge := Some ''vmbr0''\<rparr> \<and>
   exactly_one_variant sample_qinq \<and> block_set sample_qinq QinQZone \<and>
   Type (fst (exportToSdnZoneBody sample_qinq [])) = Some ''qinq''"
proof -
  have two: "first_variant sample_two_blocks = Some VlanZone"
    by (simp add: first_variant_cases sample_two_blocks_def sample_defs)
  have fields: "variant_fields_spec sample_two_blocks VlanZone
      = zeroSdnZoneBody\<lparr>Bridge := Some ''vmbr0''\<rparr>"
    by (simp add: sample_two_blocks_def sample_defs ValueStringPointer_def)
  have one: "exactly_one_variant sample_qinq" "block_set sample_qinq QinQZone"
    by (simp_all add: sample_defs exactly_one_variant_def)
  from export_type_matches_first_variant [of sample_qinq "[]"] one
  have q: "Type (fst (exportToSdnZoneBody sample_qinq [])) = Some (discriminant QinQZone)"
    unfolding Let_def by blast
  from export_type_matches_first_variant [of sample_two_blocks "[]"] two fields
  have t: "Type (fst (exportToSdnZoneBody sample_two_blocks [])) = Some ''vlan''"
    "variant_part (fst (exportToSdnZoneBody sample_two_blocks []))
       = zeroSdnZoneBody\<lparr>Bridge := Some ''vmbr0''\<rparr>"
    unfolding Let_def by simp_all
  from two one q t show ?thesis
    by simp
qed

section \<open>Import from the wire record\<close>

lemma HasError_Append1: "HasError (Append1 diags d) = (HasError diags \<or> is_error d)"
  by (auto simp: HasError_def Append1_def list_ex_iff)

lemma Append1_member: "d \<in> set (Append1 diags d)"
  by (simp add: Append1_def)

lemma convertStringToList_diags: "snd (convertStringToList v diags) = diags"
  by (simp add: convertStringToList_def ListValueFrom_def Append_Nil Let_def
      split: option.splits)

lemma read_found:
  "read noData (Inr \<lparr>Data_get = Some body\<rparr>) m diags = importFromSdnZoneBody m body diags"
  by (simp add: read_def Get_client_def)

text \<open>
  C8: for a wire record whose type string is none of simple, vlan, vxlan, qinq, evpn,
  \<open>importFromSdnZoneBody\<close> (and \<open>read\<close>, which hands its diagnostics to the caller)
  returns diagnostics that hold the error "Invalid SDN Zone Type", and the variant
  blocks of the model are those the receiver had: none is populated.
\<close>

theorem import_unrecognized_type:
  assumes "Type body = Some t" and "t \<notin> set zone_types"
  shows "\<exists>m' diags'.
           importFromSdnZoneBody m body diags = Inr (m', diags') \<and>
           read noData (Inr \<lparr>Data_get = Some body\<rparr>) m diags = Inr (m', diags') \<and>
           HasError diags' \<and>
           Diagnostic SeverityError ''Invalid SDN Zone Type''
             (''SDN Zone type is not recognized: '' @ t) \<in> set diags' \<and>
           Simple m' = Simple m \<and> VLAN m' = VLAN m \<and> VXLAN m' = VXLAN m \<and>
           QinQ m' = QinQ m \<and> EVPN m' = EVPN m"
proof -
  obtain nodes where nodes: "convertStringToList (Nodes body) diags = (nodes, diags)"
    using convertStringToList_diags [of "Nodes body" diags] by (metis prod.collapse)
  from assms(2) have "t \<noteq> ''simple''" "t \<noteq> ''vlan''" "t \<noteq> ''vxlan''" "t \<noteq> ''qinq''"
    "t \<noteq> ''evpn''"
    by (auto simp: zone_types_def variants_def)
  with assms(1) nodes show ?thesis
    by (simp add: read_found importFromSdnZoneBody_def AddError_def HasError_Append1
        Append1_member)
qed

theorem import_unrecognized_type_witness:
  "Type faucet_record = Some ''faucet'' \<and> ''faucet'' \<notin> set zone_types \<and>
   (\<exists>m'. importFromSdnZoneBody zeroModel faucet_record [] =
            Inr (m', [Diagnostic SeverityError ''Invalid SDN Zone Type''
                        ''SDN Zone type is not recognized: faucet'']) \<and>
          Simple m' = None \<and> VLAN m' = None \<and> VXLAN m' = None \<and> QinQ m' = None \<and>
          EVPN m' = None)"
proof -
  have t: "Type faucet_record = Some ''faucet''"
    by (simp add: faucet_record_def)
  have nt: "''faucet'' \<notin> set zone_types"
    by (simp add: zone_types_def variants_def)
  from import_unrecognized_type [OF t nt, of zeroModel "[]" "[]"]
  obtain m' diags' where r: "importFromSdnZoneBody zeroModel faucet_record [] = Inr (m', diags')"
    and b: "Simple m' = Simple zeroModel" "VLAN m' = VLAN zeroModel"
      "VXLAN m' = VXLAN zeroModel" "QinQ m' = QinQ zeroModel" "EVPN m' = EVPN zeroModel"
    by blast
  have d: "diags' = [Diagnostic SeverityError ''Invalid SDN Zone Type''
                        ''SDN Zone type is not recognized: faucet'']"
    using r
    by (simp add: importFromSdnZoneBody_def faucet_record_def zeroSdnZoneBody_def
        convertStringToList_def ListNull_def AddError_def Append1_def)
  from t nt r b d show ?thesis
    by (simp add: zeroModel_def)
qed

text \<open>
  C6 fails on the code: a wire record whose type is absent makes
  \<open>importFromSdnZoneBody\<close> dereference a nil pointer, and \<open>read\<close> with it.
\<close>

theorem import_nil_type_panics:
  "importFromSdnZoneBody m typeless_record diags = Inl NilPointerDereference \<and>
   read noData (Inr \<lparr>Data_get = Some typeless_record\<rparr>) m diags = Inl NilPointerDereference"
  by (simp add: read_found importFromSdnZoneBody_def typeless_record_def zeroSdnZoneBody_def
      Let_def split: prod.splits)

section \<open>The schema and the model's tags\<close>

text \<open>
  C7 fails on the code: the schema's evpn block declares the key \<open>vfr_vxlan\<close>, where the
  model's field carries the tag \<open>vrf_vxlan\<close>.
\<close>

theorem evpn_schema_key_misspelt:
  "nested_keys ''evpn'' =
     [''controller'', ''vfr_vxlan'', ''mac'', ''exitnodes'', ''exitnodes_primary'',
      ''exitnodes_local_routing'', ''advertise_subnets'', ''disable_arp_nd_suppression'',
      ''rt_import''] \<and>
   ''vrf_vxlan'' \<notin> set (nested_keys ''evpn'') \<and>
   ''vrf_vxlan'' \<in> set sdnZoneEvpnModel_tfsdk \<and>
   nested_keys ''evpn'' \<noteq> sdnZoneEvpnModel_tfsdk"
  by (simp add: nested_keys_def Schema_Attributes_def sdnZoneEvpnModel_tfsdk_def)

section \<open>The transport client: the order of the list, no data, and null entries\<close>

text \<open>The sorted prefix, nearest element first, descends by name.\<close>

lemma sink_mset: "sink lessFn x ys = Inr zs \<Longrightarrow> mset zs = add_mset x (mset ys)"
  by (induction ys arbitrary: zs) (auto split: sum.splits bool.splits)

lemma insertionSort_mset:
  "insertionSort lessFn front xs = Inr zs \<Longrightarrow> mset zs = mset front + mset xs"
  by (induction xs arbitrary: front) (auto split: sum.splits dest: sink_mset)

lemma lessName_Inr: "lessName a b = Inr r \<longleftrightarrow> (\<exists>x y. a = Some x \<and> b = Some y \<and> r = (Name x < Name y))"
  by (cases a; cases b) auto

lemma lessName_False: "lessName b a = Inr False \<longleftrightarrow> name_ordered a b"
  by (cases a; cases b) auto

lemma sink_descends:
  assumes "sink lessName x ys = Inr zs" and "sorted_wrt (\<lambda>a b. name_ordered b a) ys"
  shows "sorted_wrt (\<lambda>a b. name_ordered b a) zs"
  using assms
proof (induction ys arbitrary: zs)
  case Nil
  then show ?case by auto
next
  case (Cons y ys)
  from Cons.prems(1) obtain r where r: "lessName x y = Inr r"
    by (auto split: sum.splits)
  then obtain a b where ab: "x = Some a" "y = Some b" "r = (Name a < Name b)"
    by (auto simp: lessName_Inr)
  show ?case
  proof (cases r)
    case True
    with Cons.prems(1) r obtain zs' where zs': "sink lessName x ys = Inr zs'" "zs = y # zs'"
      by (auto split: sum.splits)
    from Cons.IH [OF zs'(1)] Cons.prems(2) have s: "sorted_wrt (\<lambda>a b. name_ordered b a) zs'"
      by simp
    have "set zs' = insert x (set ys)"
      using sink_mset [OF zs'(1)] by (metis set_mset_add_mset_insert set_mset_mset)
    with Cons.prems(2) True ab s zs'(2) show ?thesis
      by auto
  next
    case False
    with Cons.prems(1) r have zs: "zs = x # y # ys"
      by auto
    have "name_ordered z x" if "z \<in> set ys" for z
    proof -
      from Cons.prems(2) that have "name_ordered z y" by simp
      with ab False show ?thesis by (cases z) auto
    qed
    with Cons.prems(2) False ab zs show ?thesis
      by auto
  qed
qed

lemma insertionSort_ascends:
  assumes "insertionSort lessName front xs = Inr zs"
    and "sorted_wrt (\<lambda>a b. name_ordered b a) front"
  shows "sorted_wrt name_ordered zs"
  using assms
proof (induction xs arbitrary: front)
  case Nil
  then show ?case by (auto simp: sorted_wrt_rev)
next
  case (Cons x xs)
  from Cons.prems(1) obtain s where s: "sink lessName x front = Inr s"
    "insertionSort lessName s xs = Inr zs"
    by (auto split: sum.splits)
  from Cons.IH [OF s(2) sink_descends [OF s(1) Cons.prems(2)]] show ?case .
qed

lemma sort_Slice_sorted:
  assumes "sort_Slice lessName data (Inr zs)"
  shows "sorted_wrt name_ordered zs \<and> mset zs = mset data"
proof (cases "length data \<le> maxInsertion")
  case True
  with assms have "insertionSort lessName [] data = Inr zs"
    by (simp add: sort_Slice_def)
  then show ?thesis
    using insertionSort_ascends [of "[]" data zs] insertionSort_mset [of lessName "[]" data zs]
    by simp
next
  case False
  with assms show ?thesis
    by (simp add: sort_Slice_def lessName_False)
qed

lemma sorted_records: "sorted_wrt name_ordered zs \<Longrightarrow> sorted (map Name (records zs))"
proof (induction zs rule: records.induct)
  case 1
  then show ?case by simp
next
  case (2 zs)
  then show ?case by simp
next
  case (3 r zs)
  have "Name r \<le> Name x" if "x \<in> set (records zs)" for x
  proof -
    have "Some x \<in> set zs" using that by (induction zs rule: records.induct) auto
    with 3(2) show ?thesis by auto
  qed
  with 3 show ?case by auto
qed

text \<open>
  C9: the entries that a successful \<open>List\<close> returns are in ascending order of their
  names (bytewise, as Go compares strings): of every two of them the earlier one is a
  record whose name is at most the name of the later one, so that the names of the records
  are sorted; and the entries are those of the response, in whatever order the server
  sent them.
\<close>

theorem List_sorted_by_name:
  assumes "List_client r (Inr (Inr zs))"
  shows "sorted_wrt name_ordered zs \<and> sorted (map Name (records zs)) \<and>
    (\<exists>resBody data. r = Inr resBody \<and> Data_list resBody = Some data \<and> mset zs = mset data)"
proof -
  from assms obtain resBody data where r: "r = Inr resBody" "Data_list resBody = Some data"
    and s: "sort_Slice lessName data (Inr zs)"
    by (auto simp: List_client_def split: sum.splits option.splits)
  from sort_Slice_sorted [OF s] r sorted_records show ?thesis
    by auto
qed

lemmas response_defs = short_response_def short_sorted_def long_response_def long_sorted_def
  zone_named_def zone_on_def zeroSdnZoneBody_def

theorem List_sorted_by_name_witness:
  "List_client (Inr \<lparr>Data_list = Some short_response\<rparr>) (Inr (Inr short_sorted)) \<and>
   sorted_wrt name_ordered short_sorted \<and>
   List_client (Inr \<lparr>Data_list = Some long_response\<rparr>) (Inr (Inr long_sorted)) \<and>
   sorted_wrt name_ordered long_sorted \<and>
   map Name (records long_sorted) =
     [''z01'', ''z02'', ''z03'', ''z04'', ''z05'', ''z06'', ''z07'', ''z07'', ''z09'', ''z10'',
      ''z11'', ''z12'', ''z13'']"
proof -
  have short: "List_client (Inr \<lparr>Data_list = Some short_response\<rparr>) (Inr (Inr short_sorted))"
    by (simp add: List_client_def sort_Slice_def maxInsertion_def response_defs)
  have m: "mset long_sorted = mset long_response"
    by (simp add: response_defs)
  have o: "sorted_wrt (\<lambda>a b. lessName b a = Inr False) long_sorted"
    by (simp add: response_defs)
  have long: "List_client (Inr \<lparr>Data_list = Some long_response\<rparr>) (Inr (Inr long_sorted))"
    using m o by (simp add: List_client_def sort_Slice_def maxInsertion_def)
      (simp add: long_response_def)
  have names: "map Name (records long_sorted) =
     [''z01'', ''z02'', ''z03'', ''z04'', ''z05'', ''z06'', ''z07'', ''z07'', ''z09'', ''z10'',
      ''z11'', ''z12'', ''z13'']"
    by (simp add: response_defs)
  from List_sorted_by_name [OF short] List_sorted_by_name [OF long] short long names
  show ?thesis
    by blast
qed

lemma sink_records:
  "\<exists>zs. sink lessName (Some x) (map Some ys) = Inr (map Some zs)"
proof (induction ys)
  case Nil
  show ?case by (simp add: exI [of _ "[x]"])
next
  case (Cons y ys)
  then obtain zs where zs: "sink lessName (Some x) (map Some ys) = Inr (map Some zs)"
    by blast
  show ?case
  proof (cases "Name x < Name y")
    case True
    with zs show ?thesis by (simp add: exI [of _ "y # zs"])
  next
    case False
    then show ?thesis by (simp add: exI [of _ "x # y # ys"])
  qed
qed

lemma insertionSort_records:
  "\<exists>zs. insertionSort lessName (map Some front) (map Some xs) = Inr (map Some zs)"
proof (induction xs arbitrary: front)
  case Nil
  show ?case by (simp add: exI [of _ "rev front"] rev_map)
next
  case (Cons x xs)
  obtain s where s: "sink lessName (Some x) (map Some front) = Inr (map Some s)"
    using sink_records by blast
  with Cons [of s] show ?case by simp
qed

lemma all_records: "None \<notin> set data \<Longrightarrow> \<exists>rs. data = map Some rs"
proof (induction data)
  case Nil
  then show ?case by simp
next
  case (Cons d data)
  from Cons.prems obtain r where r: "d = Some r"
    by (cases d) auto
  from Cons obtain rs where rs: "data = map Some rs"
    by auto
  from r rs have "d # data = map Some (r # rs)"
    by simp
  then show ?case by (rule exI)
qed

lemma name_ordered_entries:
  assumes "sorted_wrt name_ordered zs" and "2 \<le> length zs"
  shows "None \<notin> set zs"
proof (cases zs)
  case Nil
  with assms(2) show ?thesis by simp
next
  case (Cons z zs')
  with assms(1) have rest: "\<forall>y \<in> set zs'. name_ordered z y"
    by simp
  from Cons assms(2) obtain y where "y \<in> set zs'"
    by (cases zs') auto
  with rest have "name_ordered z y" by blast
  then have "z \<noteq> None" by (cases z) auto
  moreover have "y \<noteq> None" if "y \<in> set zs'" for y
    using rest that by (cases z; cases y) auto
  ultimately show ?thesis
    using Cons by auto
qed

text \<open>
  With a nil entry among two or more, \<open>List\<close> panics whatever the order of the entries;
  without one it returns the records in the order of their names.
\<close>

lemma List_nil_entry:
  assumes "None \<in> set data" and "2 \<le> length data"
  shows "List_client (Inr \<lparr>Data_list = Some data\<rparr>) out \<longleftrightarrow> out = Inl NilPointerDereference"
proof -
  have no: "\<not> sort_Slice lessName data (Inr zs)" for zs
  proof
    assume "sort_Slice lessName data (Inr zs)"
    from sort_Slice_sorted [OF this] have s: "sorted_wrt name_ordered zs" "mset zs = mset data"
      by simp_all
    from s(2) have "length zs = length data" "set zs = set data"
      by (metis size_mset, metis set_mset_mset)
    with name_ordered_entries [OF s(1)] assms show False
      by simp
  qed
  have yes: "sort_Slice lessName data (Inl NilPointerDereference)"
  proof (cases "length data \<le> maxInsertion")
    case True
    have "insertionSort lessName [] data \<noteq> Inr zs" for zs
      using no [of zs] True by (simp add: sort_Slice_def)
    then obtain p where "insertionSort lessName [] data = Inl p"
      by (cases "insertionSort lessName [] data") auto
    with True show ?thesis
      by (cases p) (simp add: sort_Slice_def)
  next
    case False
    from assms(1) have "list_ex (\<lambda>x. list_ex (\<lambda>y. lessName x y = Inl NilPointerDereference) data) data"
      by (auto simp: list_ex_iff intro!: bexI [of _ None])
    with False show ?thesis
      by (simp add: sort_Slice_def)
  qed
  show ?thesis
  proof
    assume "List_client (Inr \<lparr>Data_list = Some data\<rparr>) out"
    with no show "out = Inl NilPointerDereference"
      by (cases out) (auto simp: List_client_def split: sum.splits intro: panic.exhaust)
  next
    assume "out = Inl NilPointerDereference"
    with yes show "List_client (Inr \<lparr>Data_list = Some data\<rparr>) out"
      by (simp add: List_client_def)
  qed
qed

lemma List_returns_records:
  assumes "List_client (Inr \<lparr>Data_list = Some (map Some rs)\<rparr>) out"
  shows "\<exists>zs. out = Inr (Inr (map Some zs)) \<and> mset zs = mset rs \<and> sorted (map Name zs)"
proof -
  have np: "\<not> sort_Slice lessName (map Some rs) (Inl p)" for p
  proof (cases "length rs \<le> maxInsertion")
    case True
    then show ?thesis
      using insertionSort_records [of "[]" rs] by (auto simp: sort_Slice_def)
  next
    case False
    then show ?thesis
      by (auto simp: sort_Slice_def list_ex_iff)
  qed
  with assms obtain zs' where out: "out = Inr (Inr zs')"
    and s: "sort_Slice lessName (map Some rs) (Inr zs')"
    by (cases out) (auto simp: List_client_def split: sum.splits)
  from sort_Slice_sorted [OF s] have o: "sorted_wrt name_ordered zs'"
    and m: "mset zs' = mset (map Some rs)"
    by simp_all
  from m have "set zs' = Some ` set rs"
    by (metis set_mset_mset set_map)
  then have "None \<notin> set zs'" by auto
  then obtain zs where zs: "zs' = map Some zs"
    using all_records by blast
  with m have "mset zs = mset rs"
    by (metis inj_Some mset_map multiset.inj_map_strong option.inject)
  moreover from o zs have "sorted (map Name zs)"
    using sorted_records [of zs'] by (simp add: comp_def) (induction zs arbitrary: zs'; simp)
  ultimately show ?thesis
    using out zs by blast
qed

text \<open>\<open>List\<close> has an outcome on every outcome of its request.\<close>

lemma List_total: "\<exists>out. List_client r out"
proof (cases r)
  case (Inl err)
  then show ?thesis by (simp add: List_client_def)
next
  case (Inr resBody)
  show ?thesis
  proof (cases "Data_list resBody")
    case None
    with Inr show ?thesis by (simp add: List_client_def)
  next
    case (Some data)
    have "\<exists>out. sort_Slice lessName data out"
    proof (cases "length data \<le> maxInsertion")
      case True
      then show ?thesis by (simp add: sort_Slice_def)
    next
      case long: False
      show ?thesis
      proof (cases "None \<in> set data")
        case True
        then have "list_ex (\<lambda>x. list_ex (\<lambda>y. lessName x y = Inl NilPointerDereference) data) data"
          by (auto simp: list_ex_iff intro!: bexI [of _ None])
        with long have "sort_Slice lessName data (Inl NilPointerDereference)"
          by (simp add: sort_Slice_def)
        then show ?thesis ..
      next
        case False
        then obtain rs where rs: "data = map Some rs"
          using all_records by blast
        let ?zs = "map Some (sort_key Name rs)"
        have "sorted_wrt (\<lambda>a b. Name a \<le> Name b) (sort_key Name rs)"
          using sorted_sort_key [of Name rs] by (simp add: sorted_map)
        then have "sorted_wrt (\<lambda>a b. lessName b a = Inr False) ?zs"
          by (simp add: sorted_wrt_map lessName_False)
        with long rs have "sort_Slice lessName data (Inr ?zs)"
          by (simp add: sort_Slice_def)
        then show ?thesis ..
      qed
    qed
    then obtain o' where o': "sort_Slice lessName data o'" ..
    show ?thesis
    proof (cases o')
      case (Inl p)
      with o' Inr Some have "List_client r (Inl p)"
        by (simp add: List_client_def)
      then show ?thesis ..
    next
      case (Inr zs)
      with o' \<open>r = Inr resBody\<close> Some have "List_client r (Inr (Inr zs))"
        by (simp add: List_client_def)
      then show ?thesis ..
    qed
  qed
qed

lemma client_no_data:
  "(List_client r (Inr (Inl ErrNoDataObjectInResponse))
      \<longleftrightarrow> (\<exists>resBody. r = Inr resBody \<and> Data_list resBody = None)) \<and>
   (Get_client g = Inl ErrNoDataObjectInResponse
      \<longleftrightarrow> (\<exists>resBody. g = Inr resBody \<and> Data_get resBody = None)) \<and>
   (\<forall>resBody data. g = Inr resBody \<and> Data_get resBody = Some data \<longrightarrow>
      Get_client g = Inr data) \<and>
   (\<forall>err. r = Inl err \<longrightarrow>
      (List_client r out \<longleftrightarrow> out = Inr (Inl (Wrapped ''error listing SDN zones: '' err)))) \<and>
   (\<forall>err. g = Inl err \<longrightarrow> Get_client g = Inl (Wrapped ''error reading SDN zone: '' err))"
  by (auto simp: List_client_def Get_client_def split: sum.splits option.splits)

text \<open>
  C10 fails on the code: a response whose data field is present and holds two null
  entries makes \<open>List\<close> panic, where the claim has it return the data. The less function
  dereferences the nil entries; \<open>List\<close> has no other outcome there. (The rest of the
  claim holds: \<open>client_no_data\<close>, \<open>List_returns_records\<close>.)
\<close>

theorem List_null_entries_panic:
  "List_client (Inr null_entries_response) out \<longleftrightarrow> out = Inl NilPointerDereference"
proof
  assume "List_client (Inr null_entries_response) out"
  then show "out = Inl NilPointerDereference"
    by (cases out)
      (auto simp: List_client_def null_entries_response_def sort_Slice_def maxInsertion_def
        split: sum.splits)
next
  assume "out = Inl NilPointerDereference"
  then show "List_client (Inr null_entries_response) out"
    by (simp add: List_client_def null_entries_response_def sort_Slice_def maxInsertion_def)
qed

section \<open>Zones that do not exist\<close>

text \<open>
  C4: when \<open>Get\<close> fails with an error whose message contains "does not exist", \<open>read\<close>
  adds a warning and no error, and resets the model to its name alone; when the client's
  \<open>Delete\<close> fails with such an error, the resource's \<open>Delete\<close> adds a warning and no
  error, so that the deletion counts as done; any other failure of \<open>Get\<close> or \<open>Delete\<close>
  leaves an error in the diagnostics.
\<close>

theorem not_found_is_warning:
  "(Get_client g = Inl err \<and> Contains (Error noData err) ''does not exist'' \<longrightarrow>
      (\<exists>w. read noData g m diags
              = Inr (zeroModel\<lparr>Name_model := Name_model m\<rparr>, Append1 diags w) \<and>
           \<not> is_error w \<and> HasError (Append1 diags w) = HasError diags)) \<and>
   (Get_client g = Inl err \<and> \<not> Contains (Error noData err) ''does not exist'' \<longrightarrow>
      (\<exists>diags'. read noData g m diags = Inr (m, diags') \<and> HasError diags')) \<and>
   (\<not> HasError (Append respDiags (snd stateGet)) \<and> Delete_client d = Some err' \<and>
    Contains (Error noData err') ''does not exist'' \<longrightarrow>
      (\<exists>w. Delete_resource noData stateGet d respDiags
              = Append1 (Append respDiags (snd stateGet)) w \<and>
           \<not> is_error w) \<and>
      \<not> HasError (Delete_resource noData stateGet d respDiags)) \<and>
   (\<not> HasError (Append respDiags (snd stateGet)) \<and> Delete_client d = Some err' \<and>
    \<not> Contains (Error noData err') ''does not exist'' \<longrightarrow>
      HasError (Delete_resource noData stateGet d respDiags))"
proof (intro conjI impI; elim conjE)
  assume "Get_client g = Inl err" "Contains (Error noData err) ''does not exist''"
  then have "read noData g m diags
      = Inr (zeroModel\<lparr>Name_model := Name_model m\<rparr>,
             Append1 diags (Diagnostic SeverityWarning ''SDN Zone Not Found''
               (''SDN zone '' @ ValueString (Name_model m) @
                '' does not exist, setting to empty state'')))"
    by (simp add: read_def RemoveAllAttributes_def zeroModel_def ListNull_def AddWarning_def)
  then show "\<exists>w. read noData g m diags
              = Inr (zeroModel\<lparr>Name_model := Name_model m\<rparr>, Append1 diags w) \<and>
           \<not> is_error w \<and> HasError (Append1 diags w) = HasError diags"
    by (intro exI [of _ "Diagnostic SeverityWarning _ _"]) (simp add: HasError_Append1)
next
  assume "Get_client g = Inl err" "\<not> Contains (Error noData err) ''does not exist''"
  then show "\<exists>diags'. read noData g m diags = Inr (m, diags') \<and> HasError diags'"
    by (simp add: read_def AddError_def HasError_Append1)
next
  assume a: "\<not> HasError (Append respDiags (snd stateGet))" "Delete_client d = Some err'"
    "Contains (Error noData err') ''does not exist''"
  then have del: "Delete_resource noData stateGet d respDiags
      = Append1 (Append respDiags (snd stateGet))
          (Diagnostic SeverityWarning ''SDN Zone Not Found''
             (''SDN zone '' @ ValueString (Name_model (fst stateGet)) @
              '' does not exist, skipping deletion''))"
    by (cases stateGet) (simp add: Delete_resource_def AddWarning_def)
  then show "\<exists>w. Delete_resource noData stateGet d respDiags
              = Append1 (Append respDiags (snd stateGet)) w \<and> \<not> is_error w"
    by (intro exI [of _ "Diagnostic SeverityWarning _ _"]) simp
  from del a(1) show "\<not> HasError (Delete_resource noData stateGet d respDiags)"
    by (simp add: HasError_Append1)
next
  assume "\<not> HasError (Append respDiags (snd stateGet))" "Delete_client d = Some err'"
    "\<not> Contains (Error noData err') ''does not exist''"
  then show "HasError (Delete_resource noData stateGet d respDiags)"
    by (cases stateGet) (simp add: Delete_resource_def AddError_def HasError_Append1)
qed

theorem not_found_is_warning_witness:
  "read [] (Inl not_found_error) sample_vlan []
     = Inr (zeroModel\<lparr>Name_model := Known ''zone1''\<rparr>,
            [Diagnostic SeverityWarning ''SDN Zone Not Found''
               ''SDN zone zone1 does not exist, setting to empty state'']) \<and>
   (\<exists>diags'. read [] (Inl refused_error) sample_vlan [] = Inr (sample_vlan, diags') \<and>
      HasError diags') \<and>
   Delete_resource [] (sample_vlan, []) (Some not_found_error) []
     = [Diagnostic SeverityWarning ''SDN Zone Not Found''
          ''SDN zone zone1 does not exist, skipping deletion''] \<and>
   \<not> HasError (Delete_resource [] (sample_vlan, []) (Some not_found_error) []) \<and>
   HasError (Delete_resource [] (sample_vlan, []) (Some refused_error) [])"
proof -
  let ?get = "Wrapped ''error reading SDN zone: ''"
  let ?del = "Wrapped ''error deleting SDN zone: ''"
  have g1: "Get_client (Inl not_found_error) = Inl (?get not_found_error)"
    and g2: "Get_client (Inl refused_error) = Inl (?get refused_error)"
    by (simp_all add: Get_client_def)
  have d1: "Delete_client (Some not_found_error) = Some (?del not_found_error)"
    and d2: "Delete_client (Some refused_error) = Some (?del refused_error)"
    by (simp_all add: Delete_client_def)
  have c1: "Contains (Error [] (?get not_found_error)) ''does not exist''"
    and c2: "\<not> Contains (Error [] (?get refused_error)) ''does not exist''"
    and c3: "Contains (Error [] (?del not_found_error)) ''does not exist''"
    and c4: "\<not> Contains (Error [] (?del refused_error)) ''does not exist''"
    by (simp_all add: not_found_error_def refused_error_def)
  have ok: "\<not> HasError (Append [] (snd (sample_vlan, [])))"
    by (simp add: Append_Nil HasError_def)
  have r1: "read [] (Inl not_found_error) sample_vlan []
     = Inr (zeroModel\<lparr>Name_model := Known ''zone1''\<rparr>,
            [Diagnostic SeverityWarning ''SDN Zone Not Found''
               ''SDN zone zone1 does not exist, setting to empty state''])"
    using not_found_is_warning [of "Inl not_found_error" "?get not_found_error" "[]"
        sample_vlan "[]"] g1 c1
    by (auto simp: read_def AddWarning_def Append1_def sample_defs ValueString_def)
  have r2: "\<exists>diags'. read [] (Inl refused_error) sample_vlan [] = Inr (sample_vlan, diags') \<and>
      HasError diags'"
    using not_found_is_warning [of "Inl refused_error" "?get refused_error" "[]"
        sample_vlan "[]"] g2 c2
    by blast
  have r3: "\<not> HasError (Delete_resource [] (sample_vlan, []) (Some not_found_error) [])"
    using not_found_is_warning [of _ _ "[]" _ _ "[]" "(sample_vlan, [])"
        "Some not_found_error" "?del not_found_error"] ok d1 c3
    by blast
  have r4: "HasError (Delete_resource [] (sample_vlan, []) (Some refused_error) [])"
    using not_found_is_warning [of _ _ "[]" _ _ "[]" "(sample_vlan, [])"
        "Some refused_error" "?del refused_error"] ok d2 c4
    by blast
  have r5: "Delete_resource [] (sample_vlan, []) (Some not_found_error) []
     = [Diagnostic SeverityWarning ''SDN Zone Not Found''
          ''SDN zone zone1 does not exist, skipping deletion'']"
    using d1 c3
    by (simp add: Delete_resource_def Append_Nil HasError_def AddWarning_def Append1_def
        sample_defs ValueString_def)
  from r1 r2 r3 r4 r5 show ?thesis
    by blast
qed

section \<open>The update body\<close>

lemma appendIfNil_alt:
  "appendIfNil field name deleteTab = deleteTab @ (if field = None then [name] else [])"
  by (simp add: appendIfNil_def)

lemma filter_as_concat: "filter P xs = concat (map (\<lambda>x. if P x then [x] else []) xs)"
  by (induction xs) simp_all

lemma field_is_nil_simps:
  "field_is_nil b ''mtu'' = (Mtu b = None)"
  "field_is_nil b ''nodes'' = (Nodes b = None)"
  "field_is_nil b ''ipam'' = (Ipam b = None)"
  "field_is_nil b ''dns'' = (Dns b = None)"
  "field_is_nil b ''reversedns'' = (Reversedns b = None)"
  "field_is_nil b ''dnszone'' = (Dnszone b = None)"
  "field_is_nil b ''dhcp'' = (Dhcp b = None)"
  "field_is_nil b ''bridge'' = (Bridge b = None)"
  "field_is_nil b ''peers'' = (Peers b = None)"
  "field_is_nil b ''vxlan-port'' = (VxlanPort b = None)"
  "field_is_nil b ''tag'' = (Tag b = None)"
  "field_is_nil b ''vlan-protocol'' = (VlanProtocol b = None)"
  "field_is_nil b ''controller'' = (Controller b = None)"
  "field_is_nil b ''vrf-vxlan'' = (VrfVxlan b = None)"
  "field_is_nil b ''mac'' = (Mac b = None)"
  "field_is_nil b ''exitnodes'' = (Exitnodes b = None)"
  "field_is_nil b ''exitnodes-primary'' = (ExitnodesPrimary b = None)"
  "field_is_nil b ''exitnodes-local-routing'' = (ExitnodesLocalRouting b = None)"
  "field_is_nil b ''advertise-subnets'' = (AdvertiseSubnets b = None)"
  "field_is_nil b ''disable-arp-nd-suppression'' = (DisableArpNdSuppression b = None)"
  "field_is_nil b ''rt-import'' = (RtImport b = None)"
  by (simp_all add: field_is_nil_def wire_fields_def)

lemma update_spec_length:
  "update_spec b t =
     (let dt = filter (field_is_nil b) (applicable_fields t)
      in (if 0 < length dt then b\<lparr>Delete := Some (Join dt '','')\<rparr> else b)\<lparr>Type := None\<rparr>)"
  by (simp add: update_spec_def Let_def)

lemma update_eq:
  assumes "exportToSdnZoneBody m d = (b, d')" and "Type b = Some t"
  shows "exportToUpdateBody m d = Inr (update_spec b t, d')"
proof -
  consider "t = ''simple''" | "t = ''vlan''" | "t = ''vxlan''" | "t = ''qinq''" | "t = ''evpn''"
    | "t \<notin> set zone_types"
    by (auto simp: zone_types_def variants_def)
  then show ?thesis
  proof cases
    case 1
    with assms show ?thesis
      by (simp add: exportToUpdateBody_def update_spec_length Let_def appendIfNil_alt filter_as_concat
          field_is_nil_simps applicable_fields_def base_fields_def variant_fields_def
          split del: if_split)
  next
    case 2
    with assms show ?thesis
      by (simp add: exportToUpdateBody_def update_spec_length Let_def appendIfNil_alt filter_as_concat
          field_is_nil_simps applicable_fields_def base_fields_def variant_fields_def
          split del: if_split)
  next
    case 3
    with assms show ?thesis
      by (simp add: exportToUpdateBody_def update_spec_length Let_def appendIfNil_alt filter_as_concat
          field_is_nil_simps applicable_fields_def base_fields_def variant_fields_def
          split del: if_split)
  next
    case 4
    with assms show ?thesis
      by (simp add: exportToUpdateBody_def update_spec_length Let_def appendIfNil_alt filter_as_concat
          field_is_nil_simps applicable_fields_def base_fields_def variant_fields_def
          split del: if_split)
  next
    case 5
    with assms show ?thesis
      by (simp add: exportToUpdateBody_def update_spec_length Let_def appendIfNil_alt filter_as_concat
          field_is_nil_simps applicable_fields_def base_fields_def variant_fields_def
          split del: if_split)
  next
    case 6
    then have "t \<noteq> ''simple''" "t \<noteq> ''vlan''" "t \<noteq> ''vxlan''" "t \<noteq> ''qinq''" "t \<noteq> ''evpn''"
      by (auto simp: zone_types_def variants_def)
    with assms show ?thesis
      by (simp add: exportToUpdateBody_def update_spec_length Let_def appendIfNil_alt filter_as_concat
          field_is_nil_simps applicable_fields_def base_fields_def variant_fields_def
          split del: if_split)
  qed
qed

lemma export_diags: "snd (exportToSdnZoneBody m d) = d"
  by (cases "Simple m"; cases "VLAN m"; cases "VXLAN m"; cases "QinQ m"; cases "EVPN m")
    (simp_all add: export_cases)

lemma export_Delete: "Delete (fst (exportToSdnZoneBody m d)) = None"
  by (cases "Simple m"; cases "VLAN m"; cases "VXLAN m"; cases "QinQ m"; cases "EVPN m")
    (simp_all add: export_cases base_record_def zeroSdnZoneBody_def)

lemma exportToUpdateBody_total:
  "\<exists>u. exportToUpdateBody m d = Inr (u, d)"
proof -
  have "exportToSdnZoneBody m d = (fst (exportToSdnZoneBody m d), d)"
    using export_diags [of m d] by (metis prod.collapse)
  from update_eq [OF this export_Type] show ?thesis
    by blast
qed

lemma applicable_fields_comma_free: "list_all (\<lambda>x. CHR '','' \<notin> set x) (applicable_fields t)"
  by (simp add: applicable_fields_def base_fields_def variant_fields_def)

lemma list_all_filter: "list_all Q xs \<Longrightarrow> list_all Q (filter P xs)"
  by (induction xs) simp_all

lemma delete_list_update_spec:
  assumes "Delete b = None"
  shows "delete_list (update_spec b t) = filter (field_is_nil b) (applicable_fields t)"
proof (cases "filter (field_is_nil b) (applicable_fields t) = []")
  case True
  with assms show ?thesis
    by (simp add: delete_list_def update_spec_def)
next
  case False
  then show ?thesis
    using Split_Join [of "filter (field_is_nil b) (applicable_fields t)" "CHR '',''"]
      list_all_filter [OF applicable_fields_comma_free]
    by (simp add: delete_list_def update_spec_def)
qed

text \<open>
  C2: for a configuration with exactly one variant block set, the one of variant \<open>v\<close>,
  \<open>exportToSdnZoneBody\<close> produces a record of the type of \<open>v\<close>, and
  \<open>exportToUpdateBody\<close> returns a body whose type is nil, whose other fields are those
  of that record, and whose comma-joined \<^verbatim>\<open>delete\<close> field lists exactly the fields
  that are nil in that record among the base fields and the fields of the variant \<open>v\<close>;
  the field is nil when there is none.
\<close>

theorem update_body_delete_list:
  assumes "exactly_one_variant m"
  shows "\<exists>b v u. block_set m v \<and> (\<forall>v'. block_set m v' \<longrightarrow> v' = v) \<and>
           exportToSdnZoneBody m diags = (b, diags) \<and> Type b = Some (discriminant v) \<and>
           discriminant v \<in> set zone_types \<and>
           exportToUpdateBody m diags = Inr (u, diags) \<and> Type u = None \<and>
           delete_list u
             = filter (field_is_nil b) (base_fields @ variant_fields (discriminant v)) \<and>
           (Delete u = None \<longleftrightarrow> delete_list u = []) \<and>
           u = b\<lparr>Delete := Delete u, Type := None\<rparr>"
proof -
  define b where "b = fst (exportToSdnZoneBody m diags)"
  have e: "exportToSdnZoneBody m diags = (b, diags)"
    unfolding b_def using export_diags [of m diags] by (metis prod.collapse)
  from assms obtain v where v: "first_variant m = Some v" and bs: "block_set m v"
    by (cases rule: exactly_one_variant_cases) (auto simp: first_variant_cases)
  have only: "\<forall>v'. block_set m v' \<longrightarrow> v' = v"
    using exactly_one_first [OF assms] v by auto
  from v have t: "Type b = Some (discriminant v)"
    unfolding b_def by (simp add: export_Type)
  have zt: "discriminant v \<in> set zone_types"
    by (cases v) (simp_all add: zone_types_def variants_def)
  have nd: "Delete b = None"
    unfolding b_def by (rule export_Delete)
  let ?u = "update_spec b (discriminant v)"
  have u: "exportToUpdateBody m diags = Inr (?u, diags)"
    by (rule update_eq [OF e t])
  have dl: "delete_list ?u
      = filter (field_is_nil b) (base_fields @ variant_fields (discriminant v))"
    using delete_list_update_spec [OF nd, of "discriminant v"]
    by (simp only: applicable_fields_def)
  have ty: "Type ?u = None"
    by (simp add: update_spec_def Let_def)
  have none: "Delete ?u = None \<longleftrightarrow> delete_list ?u = []"
    by (cases "Delete ?u") (simp_all add: delete_list_def Split_not_Nil)
  have rest: "?u = b\<lparr>Delete := Delete ?u, Type := None\<rparr>"
    using nd by (simp add: update_spec_def Let_def)
  show ?thesis
    by (rule exI [of _ b], rule exI [of _ v], rule exI [of _ ?u], intro conjI)
      (fact bs only e t zt u dl ty none rest)+
qed

theorem update_body_delete_list_witness:
  "exactly_one_variant sample_sparse \<and> block_set sample_sparse EvpnZone \<and>
   (\<exists>u. exportToUpdateBody sample_sparse [] = Inr (u, []) \<and> Type u = None \<and>
        Delete u = Some ''dns,mac,exitnodes'' \<and>
        delete_list u = [''dns'', ''mac'', ''exitnodes''])"
proof -
  have one: "exactly_one_variant sample_sparse"
    by (simp add: sample_sparse_def sample_defs exactly_one_variant_def)
  have evpn: "block_set sample_sparse EvpnZone"
    by (simp add: sample_sparse_def sample_defs)
  from update_body_delete_list [OF one, of "[]"]
  obtain b v u where only: "\<forall>v'. block_set sample_sparse v' \<longrightarrow> v' = v"
    and e: "exportToSdnZoneBody sample_sparse [] = (b, [])"
    and t: "Type b = Some (discriminant v)"
    and u: "exportToUpdateBody sample_sparse [] = Inr (u, [])" "Type u = None"
    and dl: "delete_list u
      = filter (field_is_nil b) (base_fields @ variant_fields (discriminant v))"
    by blast
  from only evpn have v: "v = EvpnZone"
    by blast
  have b: "b = fst (exportToSdnZoneBody sample_sparse [])"
    using e by simp
  have "delete_list u = [''dns'', ''mac'', ''exitnodes'']"
    unfolding dl v b
    by (simp add: export_evpn sample_sparse_def sample_defs base_record_def zeroSdnZoneBody_def
        base_fields_def variant_fields_def field_is_nil_simps
        list_string_def ValueStringPointer_def ValueInt32Pointer_def ValueBoolPointer_def)
  moreover have "Delete u = Some ''dns,mac,exitnodes''"
    using u(1) update_eq [OF e t] unfolding v b
    by (auto simp add: update_spec_def export_evpn sample_sparse_def sample_defs
        base_record_def zeroSdnZoneBody_def applicable_fields_def
        base_fields_def variant_fields_def field_is_nil_simps
        list_string_def ValueStringPointer_def ValueInt32Pointer_def ValueBoolPointer_def)
  ultimately show ?thesis
    using one evpn u by blast
qed

end
